theory Spec2Isabelle
  imports Complex_Main
begin

section \<open>JavaScript strings and values\<close>

text \<open>
  A \<^typ>\<open>char\<close> stands for one UTF-16 code unit below 256; strings that hold a higher
  code unit are outside this model. A string is truthy when it is not empty, an
  optional string when it is defined and not empty, an optional boolean when it is
  \<open>true\<close>.
\<close>

definition truthy :: "string \<Rightarrow> bool" where
  "truthy s = (s \<noteq> [])"

definition truthy_opt :: "string option \<Rightarrow> bool" where
  "truthy_opt x = (case x of None \<Rightarrow> False | Some s \<Rightarrow> truthy s)"

definition truthy_flag :: "bool option \<Rightarrow> bool" where
  "truthy_flag x = (x = Some True)"

text \<open>
  The white space and line terminators that \<open>String.prototype.trim\<close> strips, among
  the code units below 256: TAB, LF, VT, FF, CR, SPACE and NBSP.
\<close>

definition is_ws :: "char \<Rightarrow> bool" where
  "is_ws c = (c = CHR 0x09 \<or> c = CHR 0x0A \<or> c = CHR 0x0B \<or> c = CHR 0x0C \<or> c = CHR 0x0D
     \<or> c = CHR 0x20 \<or> c = CHR 0xA0)"

definition trim :: "string \<Rightarrow> string" where
  "trim s = rev (dropWhile is_ws (rev (dropWhile is_ws s)))"

text \<open>\<open>s.split(sep)\<close> for a one-character separator: the empty string gives one empty piece.\<close>

fun split_on :: "char \<Rightarrow> string \<Rightarrow> string list" where
  "split_on sep [] = [[]]"
| "split_on sep (c # cs) =
     (if c = sep then [] # split_on sep cs
      else (case split_on sep cs of [] \<Rightarrow> [[c]] | l # ls \<Rightarrow> (c # l) # ls))"

text \<open>\<open>xs.join('\n')\<close>.\<close>

fun join_nl :: "string list \<Rightarrow> string" where
  "join_nl [] = []"
| "join_nl [x] = x"
| "join_nl (x # y # ys) = x @ [CHR 0x0A] @ join_nl (y # ys)"

text \<open>\<open>ids?.includes(x)\<close>: \<open>undefined\<close>, so falsy, when the array is absent.\<close>

definition includes_id :: "string list option \<Rightarrow> string \<Rightarrow> bool" where
  "includes_id ids x = (case ids of None \<Rightarrow> False | Some xs \<Rightarrow> x \<in> set xs)"

text \<open>
  A JavaScript number: a finite double is a rational, and the two zeros are one value,
  as \<open>===\<close> has it; the others are the two infinities and NaN. \<open>JSON.parse\<close> returns an
  infinity for a literal past the range of a double, such as \<open>1e999\<close>.
\<close>

datatype js_number = Finite rat | PosInfinity | NegInfinity | NaN

fun is_finite :: "js_number \<Rightarrow> bool" where
  "is_finite (Finite n) = True"
| "is_finite _ = False"

section \<open>Data model (types.ts)\<close>

record character =
  id' :: string
  name :: string
  prompt :: string
  referenceImage :: "string option"

record scene =
  sceneNumber :: js_number
  textExcerpt :: string
  characters :: string
  selectedCharacterIds :: "string list option"
  visualPrompt :: string
  imageUrl :: "string option"
  isGeneratingImage :: "bool option"

text \<open>The state of the \<open>App\<close> component: one field per \<open>useState\<close>.\<close>

record app_state =
  style :: string
  story :: string
  batchScenesText :: string
  scenes :: "scene list"
  casting :: "character list"
  isGeneratingStoryboard :: bool
  error :: "string option"

definition initial_state :: app_state where
  "initial_state = \<lparr>style = ''dark fantasy ink illustration como Junji Ito'', story = [],
     batchScenesText = [], scenes = [], casting = [], isGeneratingStoryboard = False,
     error = None\<rparr>"

section \<open>Project model: cast and scene operations of the App component\<close>

text \<open>\<open>handleAddCharacter\<close>; the argument is the value of \<open>crypto.randomUUID()\<close>.\<close>

definition handleAddCharacter :: "string \<Rightarrow> app_state \<Rightarrow> app_state" where
  "handleAddCharacter uuid st =
     st\<lparr>casting := casting st @ [\<lparr>id' = uuid, name = [], prompt = [], referenceImage = None\<rparr>]\<rparr>"

datatype character_field = FId | FName | FPrompt | FReferenceImage

text \<open>\<open>{ ...c, [field]: value }\<close>.\<close>

fun set_field :: "character_field \<Rightarrow> string \<Rightarrow> character \<Rightarrow> character" where
  "set_field FId v c = c\<lparr>id' := v\<rparr>"
| "set_field FName v c = c\<lparr>name := v\<rparr>"
| "set_field FPrompt v c = c\<lparr>prompt := v\<rparr>"
| "set_field FReferenceImage v c = c\<lparr>referenceImage := Some v\<rparr>"

text \<open>
  \<open>handleUpdateCharacter\<close> sets the cast to \<open>casting.map(...)\<close>, where \<open>casting\<close> is the
  cast of the render that created the handler: the first argument here.
\<close>

definition handleUpdateCharacter :: "character list \<Rightarrow> string \<Rightarrow> character_field \<Rightarrow> string \<Rightarrow> app_state \<Rightarrow> app_state" where
  "handleUpdateCharacter casting' cid field v st =
     st\<lparr>casting := map (\<lambda>c. if id' c = cid then set_field field v c else c) casting'\<rparr>"

definition handleRemoveCharacter :: "string \<Rightarrow> app_state \<Rightarrow> app_state" where
  "handleRemoveCharacter cid st =
     st\<lparr>casting := filter (\<lambda>c. id' c \<noteq> cid) (casting st),
        scenes := map (\<lambda>s. s\<lparr>selectedCharacterIds :=
                    map_option (filter (\<lambda>x. x \<noteq> cid)) (selectedCharacterIds s)\<rparr>) (scenes st)\<rparr>"

text \<open>The scene that \<open>handleBatchAddScenes\<close> builds from the line at position \<open>idx\<close>.\<close>

definition batch_scene :: "nat \<Rightarrow> nat \<Rightarrow> string \<Rightarrow> scene" where
  "batch_scene n idx line =
     \<lparr>sceneNumber = Finite (of_nat (n + idx + 1)), textExcerpt = trim line, characters = [],
      selectedCharacterIds = Some [], visualPrompt = [], imageUrl = None,
      isGeneratingImage = None\<rparr>"

definition handleBatchAddScenes :: "app_state \<Rightarrow> app_state" where
  "handleBatchAddScenes st =
     (if \<not> truthy (trim (batchScenesText st)) then st
      else
        let lines = filter (\<lambda>line. length (trim line) > 0) (split_on (CHR 0x0A) (batchScenesText st));
            newScenes = map (\<lambda>(idx, line). batch_scene (length (scenes st)) idx line)
                          (enumerate 0 lines)
        in st\<lparr>scenes := scenes st @ newScenes, batchScenesText := []\<rparr>)"

text \<open>
  \<open>toggleCharacterInScene\<close>: reading \<open>selectedCharacterIds\<close> of a scene that does not
  exist throws a TypeError, which is \<open>None\<close> here.
\<close>

definition toggleCharacterInScene :: "nat \<Rightarrow> string \<Rightarrow> app_state \<Rightarrow> app_state option" where
  "toggleCharacterInScene sceneIndex characterId st =
     (if sceneIndex < length (scenes st) then
        let sc = scenes st ! sceneIndex;
            selected = (case selectedCharacterIds sc of None \<Rightarrow> [] | Some xs \<Rightarrow> xs);
            sc' = (if characterId \<in> set selected
                   then sc\<lparr>selectedCharacterIds := Some (filter (\<lambda>x. x \<noteq> characterId) selected)\<rparr>
                   else sc\<lparr>selectedCharacterIds := Some (selected @ [characterId])\<rparr>)
        in Some (st\<lparr>scenes := (scenes st)[sceneIndex := sc']\<rparr>)
      else None)"

text \<open>
  The prompt text area: \<open>newScenes[index].visualPrompt = e.target.value\<close>, a TypeError
  when the scene does not exist.
\<close>

definition editVisualPrompt :: "nat \<Rightarrow> string \<Rightarrow> app_state \<Rightarrow> app_state option" where
  "editVisualPrompt index v st =
     (if index < length (scenes st)
      then Some (st\<lparr>scenes := (scenes st)[index := (scenes st ! index)\<lparr>visualPrompt := v\<rparr>]\<rparr>)
      else None)"

text \<open>The delete button: \<open>scenes.filter((_, i) => i !== index)\<close>.\<close>

definition deleteScene :: "nat \<Rightarrow> app_state \<Rightarrow> app_state" where
  "deleteScene index st =
     st\<lparr>scenes := map snd (filter (\<lambda>(i, _). i \<noteq> index) (enumerate 0 (scenes st)))\<rparr>"

section \<open>External generation client (services/geminiService.ts)\<close>

text \<open>Every failure of the client is a JavaScript \<open>Error\<close> carrying a message.\<close>

datatype js_error = Error string

fun message :: "js_error \<Rightarrow> string" where
  "message (Error m) = m"

text \<open>
  A part of a request or of a response: \<open>{ inlineData: { mimeType, data } }\<close> or
  \<open>{ text }\<close>. A request names the model, and carries its contents and its
  configuration (the scene-array JSON schema, or the aspect ratio of the image).
\<close>

datatype part = InlineData string string | TextPart string

datatype contents = Prompt string | Parts "part list"

datatype config = NoConfig | JsonScenesConfig | ImageConfig string

record request =
  model :: string
  contents :: contents
  config :: config

text \<open>
  What the client reads of a response: \<open>response.text\<close> and
  \<open>response.candidates?.[0]?.content?.parts || []\<close>.
\<close>

record response =
  resp_text :: "string option"
  resp_parts :: "part list"

text \<open>
  The environment: \<open>process.env.GEMINI_API_KEY\<close>; the remote service, which answers
  a request, knowing the requests sent before it, with a response or a rejection; and
  \<open>JSON.parse\<close> of a response text at the declared type \<open>Scene[]\<close> (\<open>None\<close> when it
  throws). The world records the effects: the requests sent and the alerts shown.
\<close>

record env =
  apiKey :: "string option"
  network :: "request list \<Rightarrow> request \<Rightarrow> js_error + response"
  parseScenes :: "string \<Rightarrow> scene list option"

text \<open>
  The alerts: that of a failed import, and those of the single-scene handlers, which
  carry the number of the scene and the message of the error.
\<close>

datatype alert = AlertImportError | AlertImageError js_number string
  | AlertPromptError js_number string

record world =
  sent :: "request list"
  alerts :: "alert list"

definition generateContent :: "env \<Rightarrow> request \<Rightarrow> world \<Rightarrow> (js_error + response) \<times> world" where
  "generateContent e req w = (network e (sent w) req, w\<lparr>sent := sent w @ [req]\<rparr>)"

definition storyboard_prompt :: "string \<Rightarrow> string \<Rightarrow> string" where
  "storyboard_prompt style' story' =
     ''Voc'' @ [CHR 0xEA] @ '' '' @ [CHR 0xE9] @ '' um especialista em adapta'' @
     [CHR 0xE7, CHR 0xE3] @ ''o de narrativas para gera'' @ [CHR 0xE7, CHR 0xE3] @
     ''o de imagens por IA.\<newline>Siga estes passos exatamente:\<newline>\<newline>1. '' @
     ''Estilo Global: O usu'' @ [CHR 0xE1] @ ''rio escolheu o estilo: '' @ [CHR 0x22] @
     style' @ [CHR 0x22] @ ''. Aplique esse estilo a TODAS as cenas, incluindo: composi'' @
     [CHR 0xE7, CHR 0xE3] @ ''o, ilumina'' @ [CHR 0xE7, CHR 0xE3] @
     ''o, paleta de cores/texturas, mood e aspect ratio.\<newline>2. '' @
     ''Texto de Entrada: Analise o texto longo fornecido abaixo, dividindo-o '' @
     ''em cenas l'' @ [CHR 0xF3] @
     ''gicas e sequenciais. Cada cena deve durar 3-8 segundos em um v'' @ [CHR 0xED] @
     ''deo.\<newline>3. Para Cada Cena:\<newline>   - Trecho do Texto: '' @
     ''Inclua o trecho exato do texto original correspondente a esta '' @
     ''cena.\<newline>   - Personagens: Liste todos os personagens '' @
     ''presentes. Mantenha consist'' @ [CHR 0xEA] @
     ''ncia visual entre cenas.\<newline>   - Descri'' @ [CHR 0xE7, CHR 0xE3] @
     ''o Visual: Crie um prompt pronto para IA de imagem (200-300 palavras), '' @
     ''otimizado para alta qualidade: descreva composi'' @ [CHR 0xE7, CHR 0xE3] @
     ''o precisa, '' @ [CHR 0xE2] @ ''ngulos de c'' @ [CHR 0xE2] @ ''mera, express'' @
     [CHR 0xF5] @
     ''es, poses, ambiente, efeitos e o estilo escolhido.\<newline>\<newline>Texto '' @
     ''de Entrada:\<newline>'' @ story'"

definition generateStoryboard :: "env \<Rightarrow> string \<Rightarrow> string \<Rightarrow> world \<Rightarrow> (js_error + scene list) \<times> world" where
  "generateStoryboard e style' story' w =
     (if \<not> truthy_opt (apiKey e) then (Inl (Error ''GEMINI_API_KEY is missing''), w)
      else
        let (r, w1) = generateContent e
              \<lparr>model = ''gemini-3.1-pro-preview'', contents = Prompt (storyboard_prompt style' story'),
               config = JsonScenesConfig\<rparr> w
        in case r of
             Inl err \<Rightarrow> (Inl err, w1)
           | Inr resp \<Rightarrow>
               (if \<not> truthy_opt (resp_text resp)
                then (Inl (Error ''Nenhuma resposta recebida da IA.''), w1)
                else (case parseScenes e (case resp_text resp of None \<Rightarrow> [] | Some t \<Rightarrow> t) of
                        None \<Rightarrow> (Inl (Error ''Erro ao interpretar a resposta da IA como JSON.''), w1)
                      | Some scs \<Rightarrow> (Inr scs, w1))))"

text \<open>The line \<open>- ${c.name}: ${c.prompt}\<close> of a character.\<close>

definition character_line :: "character \<Rightarrow> string" where
  "character_line c = ''- '' @ name c @ '': '' @ prompt c"

definition full_image_prompt :: "string \<Rightarrow> string \<Rightarrow> character list \<Rightarrow> string" where
  "full_image_prompt prompt' style' characters' =
     ''Style: '' @ style' @ ''. \<newline>Scene description: '' @ prompt' @
     (if length characters' > 0
      then ''\<newline>Characters in scene:\<newline>'' @ join_nl (map character_line characters') @
           ''\<newline>(Please maintain character consistency with the provided reference images if any).''
      else [])"

text \<open>
  The match of \<open>/^data:(image\/\w+);base64,(.+)$/\<close>: \<open>\w\<close> is a letter, a digit or
  the underscore, \<open>.\<close> is any character but a line terminator (LF and CR among the code
  units below 256). The result is the pair of the two groups.
\<close>

definition is_word_char :: "char \<Rightarrow> bool" where
  "is_word_char c =
     (let n = (of_char c :: nat)
      in (65 \<le> n \<and> n \<le> 90) \<or> (97 \<le> n \<and> n \<le> 122) \<or> (48 \<le> n \<and> n \<le> 57) \<or> n = 95)"

definition is_line_terminator :: "char \<Rightarrow> bool" where
  "is_line_terminator c = (c = CHR 0x0A \<or> c = CHR 0x0D)"

fun strip_prefix :: "string \<Rightarrow> string \<Rightarrow> string option" where
  "strip_prefix [] s = Some s"
| "strip_prefix (p # ps) [] = None"
| "strip_prefix (p # ps) (c # cs) = (if p = c then strip_prefix ps cs else None)"

definition match_data_uri :: "string \<Rightarrow> (string \<times> string) option" where
  "match_data_uri s =
     (case strip_prefix ''data:image/'' s of
        None \<Rightarrow> None
      | Some r \<Rightarrow>
          (let w = takeWhile is_word_char r
           in if w = [] then None
              else (case strip_prefix '';base64,'' (dropWhile is_word_char r) of
                      None \<Rightarrow> None
                    | Some d \<Rightarrow>
                        if d \<noteq> [] \<and> list_all (\<lambda>c. \<not> is_line_terminator c) d
                        then Some (''image/'' @ w, d) else None)))"

text \<open>The loop that pushes one part for each usable reference image, onto \<open>parts\<close>.\<close>

fun push_reference_parts :: "character list \<Rightarrow> part list \<Rightarrow> part list" where
  "push_reference_parts [] parts = parts"
| "push_reference_parts (c # cs) parts =
     push_reference_parts cs
       (if truthy_opt (referenceImage c)
        then (case match_data_uri (case referenceImage c of None \<Rightarrow> [] | Some r \<Rightarrow> r) of
                None \<Rightarrow> parts
              | Some (mimeType, payload) \<Rightarrow> parts @ [InlineData mimeType payload])
        else parts)"

definition image_request_parts :: "string \<Rightarrow> string \<Rightarrow> character list \<Rightarrow> part list" where
  "image_request_parts prompt' style' characters' =
     push_reference_parts characters' [] @ [TextPart (full_image_prompt prompt' style' characters')]"

text \<open>The first response part that has \<open>inlineData\<close>, if any: its \<open>data\<close>.\<close>

fun first_inline_data :: "part list \<Rightarrow> string option" where
  "first_inline_data [] = None"
| "first_inline_data (InlineData m d # ps) = Some d"
| "first_inline_data (TextPart t # ps) = first_inline_data ps"

definition generateImageForScene :: "env \<Rightarrow> string \<Rightarrow> string \<Rightarrow> character list \<Rightarrow> world \<Rightarrow> (js_error + string) \<times> world" where
  "generateImageForScene e prompt' style' characters' w =
     (if \<not> truthy_opt (apiKey e) then (Inl (Error ''GEMINI_API_KEY is missing''), w)
      else
        let (r, w1) = generateContent e
              \<lparr>model = ''gemini-2.5-flash-image'',
               contents = Parts (image_request_parts prompt' style' characters'),
               config = ImageConfig ''16:9''\<rparr> w
        in case r of
             Inl err \<Rightarrow> (Inl err, w1)
           | Inr resp \<Rightarrow>
               (case first_inline_data (resp_parts resp) of
                  Some d \<Rightarrow> (Inr (''data:image/png;base64,'' @ d), w1)
                | None \<Rightarrow> (Inl (Error ''Nenhuma imagem retornada pela IA.''), w1)))"

definition scene_prompt_request :: "string \<Rightarrow> string \<Rightarrow> character list \<Rightarrow> string" where
  "scene_prompt_request style' textExcerpt' characters' =
     ''Voc'' @ [CHR 0xEA] @ '' '' @ [CHR 0xE9] @ '' um especialista em adapta'' @
     [CHR 0xE7, CHR 0xE3] @ ''o de narrativas para gera'' @ [CHR 0xE7, CHR 0xE3] @
     ''o de imagens por IA.\<newline>Crie um prompt visual (em ingl'' @ [CHR 0xEA] @
     ''s, 200-300 palavras) para a seguinte cena.\<newline>Estilo Global: '' @ [CHR 0x22] @
     style' @ [CHR 0x22] @ ''\<newline>Trecho da Cena: '' @ [CHR 0x22] @ textExcerpt' @
     [CHR 0x22] @ ''\<newline>'' @
     (if length characters' > 0
      then ''Personagens presentes:\<newline>'' @ join_nl (map character_line characters')
      else []) @
     ''\<newline>Descreva composi'' @ [CHR 0xE7, CHR 0xE3] @ ''o precisa, '' @ [CHR 0xE2] @
     ''ngulos de c'' @ [CHR 0xE2] @ ''mera, express'' @ [CHR 0xF5] @
     ''es, poses, ambiente, efeitos e o estilo escolhido. Retorne APENAS '' @
     ''o prompt visual em ingl'' @ [CHR 0xEA] @ ''s, sem explica'' @ [CHR 0xE7, CHR 0xF5] @
     ''es adicionais.''"

definition generatePromptForScene :: "env \<Rightarrow> string \<Rightarrow> string \<Rightarrow> character list \<Rightarrow> world \<Rightarrow> (js_error + string) \<times> world" where
  "generatePromptForScene e style' textExcerpt' characters' w =
     (if \<not> truthy_opt (apiKey e) then (Inl (Error ''GEMINI_API_KEY is missing''), w)
      else
        let (r, w1) = generateContent e
              \<lparr>model = ''gemini-3.1-pro-preview'',
               contents = Prompt (scene_prompt_request style' textExcerpt' characters'),
               config = NoConfig\<rparr> w
        in case r of
             Inl err \<Rightarrow> (Inl err, w1)
           | Inr resp \<Rightarrow>
               (Inr (if truthy_opt (resp_text resp)
                     then (case resp_text resp of None \<Rightarrow> [] | Some t \<Rightarrow> t) else []), w1))"

section \<open>Asynchronous handlers of the App component\<close>

text \<open>
  An \<open>async\<close> handler runs up to its \<open>await\<close> when the event is handled, and the rest
  when the awaited call settles; other events are handled in between. Each such handler
  is given here in two parts: \<open>_call\<close>, up to the \<open>await\<close>, and \<open>_resume\<close>, after it.

  A handler is a closure over the state of the render that created it: it reads
  \<open>scenes\<close>, \<open>casting\<close> and \<open>style\<close> there (the argument \<open>cl\<close>), also after the
  \<open>await\<close>, while a functional update \<open>setScenes(prev => ...)\<close> applies to the state of
  the moment it runs. For a handler started by a click, \<open>cl\<close> is the state of that
  moment.

  \<open>newScenes[index] = { ...newScenes[index], ... }\<close>: past the end of the list
  JavaScript extends the array by an object that has none of the fields of a scene,
  which is \<open>None\<close> here.
\<close>

definition set_scene :: "nat \<Rightarrow> (scene \<Rightarrow> scene) \<Rightarrow> scene list \<Rightarrow> scene list option" where
  "set_scene index f prev =
     (if index < length prev then Some (prev[index := f (prev ! index)]) else None)"

definition selectedChars :: "app_state \<Rightarrow> scene \<Rightarrow> character list" where
  "selectedChars cl sc = filter (\<lambda>c. includes_id (selectedCharacterIds sc) (id' c)) (casting cl)"

text \<open>
  What a single-scene handler keeps across its \<open>await\<close>: the number of the scene of its
  closure, for the alert, and the outcome that the awaited call will have.
\<close>

type_synonym 'a pending = "js_number \<times> (js_error + 'a)"

subsection \<open>handleGenerateStoryboard\<close>

definition handleGenerateStoryboard_call :: "env \<Rightarrow> app_state \<times> world \<Rightarrow> app_state \<times> world \<times> (js_error + scene list) option" where
  "handleGenerateStoryboard_call e sw =
     (case sw of (st, w) \<Rightarrow>
        if \<not> truthy (style st) \<or> \<not> truthy (story st)
        then (st\<lparr>error := Some (''Por favor, preencha o estilo e a hist'' @ [CHR 0xF3] @ ''ria.'')\<rparr>,
              w, None)
        else
          let (r, w1) = generateStoryboard e (style st) (story st) w
          in (st\<lparr>isGeneratingStoryboard := True, error := None, scenes := []\<rparr>, w1, Some r))"

definition handleGenerateStoryboard_resume :: "js_error + scene list \<Rightarrow> app_state \<times> world \<Rightarrow> app_state \<times> world" where
  "handleGenerateStoryboard_resume r sw =
     (case sw of (st, w) \<Rightarrow>
        case r of
          Inr generatedScenes \<Rightarrow>
            (st\<lparr>scenes := map (\<lambda>s. s\<lparr>selectedCharacterIds := Some []\<rparr>) generatedScenes,
                isGeneratingStoryboard := False\<rparr>, w)
        | Inl err \<Rightarrow>
            (st\<lparr>error := Some (if truthy (message err) then message err
                                 else ''Ocorreu um erro ao gerar o storyboard.''),
                isGeneratingStoryboard := False\<rparr>, w))"

subsection \<open>handleGenerateImage\<close>

text \<open>
  Up to the \<open>await\<close>: nothing when the closure has no scene at \<open>index\<close>; else the scene at
  \<open>index\<close> of the live list is flagged and \<open>generateImageForScene\<close> is called for the
  scene of the closure.
\<close>

definition handleGenerateImage_call :: "env \<Rightarrow> app_state \<Rightarrow> nat \<Rightarrow> app_state \<times> world \<Rightarrow> (app_state \<times> world \<times> string pending option) option" where
  "handleGenerateImage_call e cl index sw =
     (case sw of (st, w) \<Rightarrow>
        if \<not> index < length (scenes cl) then Some (st, w, None)
        else
          let sc = scenes cl ! index
          in case set_scene index (\<lambda>s. s\<lparr>isGeneratingImage := Some True\<rparr>) (scenes st) of
               None \<Rightarrow> None
             | Some scs1 \<Rightarrow>
                 let (r, w1) = generateImageForScene e (visualPrompt sc) (style cl) (selectedChars cl sc) w
                 in Some (st\<lparr>scenes := scs1\<rparr>, w1, Some (sceneNumber sc, r)))"

text \<open>After the \<open>await\<close>: the \<open>try\<close> or the \<open>catch\<close> branch writes at \<open>index\<close> of the live list.\<close>

definition handleGenerateImage_resume :: "nat \<Rightarrow> string pending \<Rightarrow> app_state \<times> world \<Rightarrow> (app_state \<times> world) option" where
  "handleGenerateImage_resume index p sw =
     (case sw of (st, w) \<Rightarrow>
        case snd p of
          Inr url \<Rightarrow>
            (case set_scene index (\<lambda>s. s\<lparr>imageUrl := Some url, isGeneratingImage := Some False\<rparr>)
                    (scenes st) of
               None \<Rightarrow> None
             | Some scs2 \<Rightarrow> Some (st\<lparr>scenes := scs2\<rparr>, w))
        | Inl err \<Rightarrow>
            (case set_scene index (\<lambda>s. s\<lparr>isGeneratingImage := Some False\<rparr>) (scenes st) of
               None \<Rightarrow> None
             | Some scs2 \<Rightarrow>
                 Some (st\<lparr>scenes := scs2\<rparr>,
                       w\<lparr>alerts := alerts w @ [AlertImageError (fst p) (message err)]\<rparr>)))"

subsection \<open>handleGeneratePromptForScene\<close>

definition handleGeneratePromptForScene_call :: "env \<Rightarrow> app_state \<Rightarrow> nat \<Rightarrow> world \<Rightarrow> world \<times> string pending option" where
  "handleGeneratePromptForScene_call e cl index w =
     (if \<not> index < length (scenes cl) then (w, None)
      else
        let sc = scenes cl ! index;
            (r, w1) = generatePromptForScene e (style cl) (textExcerpt sc) (selectedChars cl sc) w
        in (w1, Some (sceneNumber sc, r)))"

definition handleGeneratePromptForScene_resume :: "nat \<Rightarrow> string pending \<Rightarrow> app_state \<times> world \<Rightarrow> (app_state \<times> world) option" where
  "handleGeneratePromptForScene_resume index p sw =
     (case sw of (st, w) \<Rightarrow>
        case snd p of
          Inr t \<Rightarrow>
            (case set_scene index (\<lambda>s. s\<lparr>visualPrompt := t\<rparr>) (scenes st) of
               None \<Rightarrow> None
             | Some scs \<Rightarrow> Some (st\<lparr>scenes := scs\<rparr>, w))
        | Inl err \<Rightarrow>
            Some (st, w\<lparr>alerts := alerts w @ [AlertPromptError (fst p) (message err)]\<rparr>))"

subsection \<open>The batch loops\<close>

text \<open>The test of \<open>handleGenerateAllImages\<close> on a scene of its closure.\<close>

definition wants_image :: "scene \<Rightarrow> bool" where
  "wants_image sc =
     (\<not> truthy_opt (imageUrl sc) \<and> \<not> truthy_flag (isGeneratingImage sc) \<and> truthy (visualPrompt sc))"

text \<open>The test of \<open>handleGenerateAllPrompts\<close>.\<close>

definition wants_prompt :: "scene \<Rightarrow> bool" where
  "wants_prompt sc = (\<not> truthy (visualPrompt sc))"

text \<open>
  The \<open>for\<close> loop of a batch handler between two of its \<open>await\<close>s: from \<open>i\<close> on, the
  first index of the closure's list whose scene passes the test, if any.
\<close>

function next_index :: "(scene \<Rightarrow> bool) \<Rightarrow> scene list \<Rightarrow> nat \<Rightarrow> nat option" where
  "next_index wants scs i =
     (if i < length scs
      then (if wants (scs ! i) then Some i else next_index wants scs (Suc i))
      else None)"
  by pat_completeness auto
termination
  by (relation "measure (\<lambda>(wants, scs, i). length scs - i)") auto

declare next_index.simps [simp del]

section \<open>Export and import of the project descriptor\<close>

text \<open>
  A value as \<open>JSON.parse\<close> returns it and as the state variables hold it; the keys of
  an object are distinct. An object of the program is the object of its defined
  properties: \<open>JSON.stringify\<close> leaves out a property whose value is \<open>undefined\<close>, and
  reading a property that is not there gives \<open>undefined\<close>.
\<close>

datatype json = JNull | JBool bool | JNum js_number | JStr string | JArr "json list"
  | JObj "(string \<times> json) list"

text \<open>
  What \<open>JSON.parse\<close> reads back from the text that \<open>JSON.stringify\<close> writes for a value:
  the value itself, but for the numbers that are not finite, which are written as
  \<open>null\<close>.
\<close>

fun written :: "json \<Rightarrow> json" where
  "written (JNum n) = (if is_finite n then JNum n else JNull)"
| "written (JArr xs) = JArr (map written xs)"
| "written (JObj kvs) = JObj (map (\<lambda>(k, v). (k, written v)) kvs)"
| "written v = v"

text \<open>
  \<open>v[key]\<close> for one of the keys that \<open>handleImport\<close> reads; \<open>None\<close> is \<open>undefined\<close>.
  A number, a boolean, a string or an array has none of these keys; reading a property
  of \<open>null\<close> throws, which the caller handles.
\<close>

fun get_prop :: "json \<Rightarrow> string \<Rightarrow> json option" where
  "get_prop (JObj kvs) k = map_of kvs k"
| "get_prop _ k = None"

definition json_of_character :: "character \<Rightarrow> json" where
  "json_of_character c =
     JObj ([(''id'', JStr (id' c)), (''name'', JStr (name c)), (''prompt'', JStr (prompt c))] @
           (case referenceImage c of None \<Rightarrow> [] | Some r \<Rightarrow> [(''referenceImage'', JStr r)]))"

definition json_of_scene :: "scene \<Rightarrow> json" where
  "json_of_scene s =
     JObj ([(''sceneNumber'', JNum (sceneNumber s)), (''textExcerpt'', JStr (textExcerpt s)),
            (''characters'', JStr (characters s))] @
           (case selectedCharacterIds s of None \<Rightarrow> []
            | Some ids \<Rightarrow> [(''selectedCharacterIds'', JArr (map JStr ids))]) @
           [(''visualPrompt'', JStr (visualPrompt s))] @
           (case imageUrl s of None \<Rightarrow> [] | Some u \<Rightarrow> [(''imageUrl'', JStr u)]) @
           (case isGeneratingImage s of None \<Rightarrow> [] | Some b \<Rightarrow> [(''isGeneratingImage'', JBool b)]))"

text \<open>
  The archive of \<open>handleExport\<close>: the value that \<open>storyboard-project.json\<close> holds, as it
  is read back, and the files \<open>images/cena_<sceneNumber>.png\<close> in the order they are written, each with
  its base64 text.
\<close>

record archive =
  descriptor :: json
  image_files :: "(js_number \<times> string) list"

definition image_file :: "scene \<Rightarrow> (js_number \<times> string) list" where
  "image_file sc =
     (if truthy_opt (imageUrl sc)
      then (case split_on (CHR '','') (case imageUrl sc of None \<Rightarrow> [] | Some u \<Rightarrow> u) of
              a # base64Data # rest \<Rightarrow>
                if truthy base64Data then [(sceneNumber sc, base64Data)] else []
            | _ \<Rightarrow> [])
      else [])"

definition handleExport :: "app_state \<Rightarrow> archive" where
  "handleExport st =
     \<lparr>descriptor = written
        (JObj [(''style'', JStr (style st)), (''story'', JStr (story st)),
               (''casting'', JArr (map json_of_character (casting st))),
               (''scenes'', JArr (map json_of_scene (scenes st)))]),
      image_files = concat (map image_file (scenes st))\<rparr>"

text \<open>
  The four state variables that \<open>handleImport\<close> sets, as the JavaScript values they
  hold: \<open>handleImport\<close> stores what it reads without a check, so after an import a
  variable may hold any JSON value.
\<close>

record raw_project =
  raw_style :: json
  raw_story :: json
  raw_casting :: json
  raw_scenes :: json

definition raw_of :: "app_state \<Rightarrow> raw_project" where
  "raw_of st =
     \<lparr>raw_style = JStr (style st), raw_story = JStr (story st),
      raw_casting = JArr (map json_of_character (casting st)),
      raw_scenes = JArr (map json_of_scene (scenes st))\<rparr>"

text \<open>
  The \<open>onload\<close> callback of \<open>handleImport\<close>. Its first argument is the outcome of
  \<open>JSON.parse(content)\<close>: \<open>None\<close> when it throws a SyntaxError. Both that and the
  TypeError on \<open>null.style\<close> reach the \<open>catch\<close>, which shows the alert.
\<close>

fun handleImport :: "json option \<Rightarrow> raw_project \<times> world \<Rightarrow> raw_project \<times> world" where
  "handleImport None (r, w) = (r, w\<lparr>alerts := alerts w @ [AlertImportError]\<rparr>)"
| "handleImport (Some JNull) (r, w) = (r, w\<lparr>alerts := alerts w @ [AlertImportError]\<rparr>)"
| "handleImport (Some projectData) (r, w) =
     (r\<lparr>raw_style := (case get_prop projectData ''style'' of None \<Rightarrow> raw_style r | Some v \<Rightarrow> v),
        raw_story := (case get_prop projectData ''story'' of None \<Rightarrow> raw_story r | Some v \<Rightarrow> v),
        raw_casting := (case get_prop projectData ''casting'' of None \<Rightarrow> raw_casting r | Some v \<Rightarrow> v),
        raw_scenes := (case get_prop projectData ''scenes'' of None \<Rightarrow> raw_scenes r | Some v \<Rightarrow> v)\<rparr>,
      w)"

subsection \<open>Reading the stored values at the declared types\<close>

text \<open>
  A stored value read as the program's types declare it: a property of the declared
  type, an optional property absent or of the declared type. \<open>None\<close> when the value
  is not of that shape.
\<close>

fun str_of_json :: "json \<Rightarrow> string option" where
  "str_of_json (JStr s) = Some s"
| "str_of_json _ = None"

fun all_some :: "'a option list \<Rightarrow> 'a list option" where
  "all_some [] = Some []"
| "all_some (None # xs) = None"
| "all_some (Some x # xs) = (case all_some xs of None \<Rightarrow> None | Some ys \<Rightarrow> Some (x # ys))"

definition character_of_json :: "json \<Rightarrow> character option" where
  "character_of_json j =
     (case (get_prop j ''id'', get_prop j ''name'', get_prop j ''prompt'') of
        (Some (JStr i), Some (JStr n), Some (JStr p)) \<Rightarrow>
          (case get_prop j ''referenceImage'' of
             None \<Rightarrow> Some \<lparr>id' = i, name = n, prompt = p, referenceImage = None\<rparr>
           | Some (JStr r) \<Rightarrow> Some \<lparr>id' = i, name = n, prompt = p, referenceImage = Some r\<rparr>
           | Some _ \<Rightarrow> None)
      | _ \<Rightarrow> None)"

definition ids_of_json :: "json option \<Rightarrow> string list option option" where
  "ids_of_json v =
     (case v of
        None \<Rightarrow> Some None
      | Some (JArr xs) \<Rightarrow> map_option Some (all_some (map str_of_json xs))
      | Some _ \<Rightarrow> None)"

definition opt_str_of_json :: "json option \<Rightarrow> string option option" where
  "opt_str_of_json v = (case v of None \<Rightarrow> Some None | Some (JStr s) \<Rightarrow> Some (Some s) | Some _ \<Rightarrow> None)"

definition opt_bool_of_json :: "json option \<Rightarrow> bool option option" where
  "opt_bool_of_json v = (case v of None \<Rightarrow> Some None | Some (JBool b) \<Rightarrow> Some (Some b) | Some _ \<Rightarrow> None)"

definition scene_of_json :: "json \<Rightarrow> scene option" where
  "scene_of_json j =
     (case (get_prop j ''sceneNumber'', get_prop j ''textExcerpt'', get_prop j ''characters'',
            get_prop j ''visualPrompt'') of
        (Some (JNum n), Some (JStr t), Some (JStr c), Some (JStr v)) \<Rightarrow>
          (case (ids_of_json (get_prop j ''selectedCharacterIds''), opt_str_of_json (get_prop j ''imageUrl''),
                 opt_bool_of_json (get_prop j ''isGeneratingImage'')) of
             (Some ids, Some u, Some g) \<Rightarrow>
               Some \<lparr>sceneNumber = n, textExcerpt = t, characters = c, selectedCharacterIds = ids,
                     visualPrompt = v, imageUrl = u, isGeneratingImage = g\<rparr>
           | _ \<Rightarrow> None)
      | _ \<Rightarrow> None)"

record project =
  p_style :: string
  p_story :: string
  p_casting :: "character list"
  p_scenes :: "scene list"

definition project_of :: "app_state \<Rightarrow> project" where
  "project_of st = \<lparr>p_style = style st, p_story = story st, p_casting = casting st, p_scenes = scenes st\<rparr>"

definition project_of_raw :: "raw_project \<Rightarrow> project option" where
  "project_of_raw r =
     (case (raw_style r, raw_story r, raw_casting r, raw_scenes r) of
        (JStr s, JStr t, JArr cs, JArr scs) \<Rightarrow>
          (case (all_some (map character_of_json cs), all_some (map scene_of_json scs)) of
             (Some cast, Some scs') \<Rightarrow>
               Some \<lparr>p_style = s, p_story = t, p_casting = cast, p_scenes = scs'\<rparr>
           | _ \<Rightarrow> None)
      | _ \<Rightarrow> None)"

section \<open>Referential integrity of the cast selections\<close>

definition selection_of :: "scene \<Rightarrow> string list" where
  "selection_of sc = (case selectedCharacterIds sc of None \<Rightarrow> [] | Some xs \<Rightarrow> xs)"

definition referential_integrity :: "character list \<Rightarrow> scene list \<Rightarrow> bool" where
  "referential_integrity cast scs =
     list_all (\<lambda>sc. list_all (\<lambda>x. x \<in> set (map id' cast)) (selection_of sc)) scs"

section \<open>The application as a transition system\<close>

text \<open>
  What is pending between two events: the calls that \<open>async\<close> handlers await, with the
  outcome they will have, the pauses of the batch loops, and the files being read.
  A call made by a batch loop carries the closure of the loop.

  A closure is kept as the value of the state at the render that created it. The
  source writes into a scene object in place at two points, the prompt field
  (\<open>newScenes[index].visualPrompt = e.target.value\<close>) and the toggle
  (\<open>scene.selectedCharacterIds = ...\<close>), and a batch loop whose closure shares that
  object reads the new value; such a write is not carried into the closures here.
  The statements on referential integrity hold whatever the pending tasks contain,
  and in the event lists evaluated below no such write is made while a batch loop is
  pending.
\<close>

datatype batch = Images | Prompts

datatype task =
    ImageCall nat "string pending" "app_state option"
  | PromptCall nat "string pending" "app_state option"
  | Pause batch app_state nat
  | StoryboardCall "js_error + scene list"
  | CharacterImageRead "character list" string string
  | ImportRead "json option"

record configuration =
  live :: app_state
  wld :: world
  tasks :: "task list"

definition world0 :: world where
  "world0 = \<lparr>sent = [], alerts = []\<rparr>"

definition initial_configuration :: configuration where
  "initial_configuration = \<lparr>live = initial_state, wld = world0, tasks = []\<rparr>"

text \<open>
  Without a key a client function rejects before it sends a request: the handler that
  awaits it resumes before any other event is handled.
\<close>

definition settles_at_once :: "env \<Rightarrow> bool" where
  "settles_at_once e = (\<not> truthy_opt (apiKey e))"

text \<open>After a single-scene call: a batch loop that made it starts its pause of 1.5 s.\<close>

definition after_call :: "batch \<Rightarrow> app_state option \<Rightarrow> nat \<Rightarrow> configuration \<Rightarrow> configuration" where
  "after_call b loop j c =
     (case loop of None \<Rightarrow> c | Some cl \<Rightarrow> c\<lparr>tasks := tasks c @ [Pause b cl j]\<rparr>)"

definition resume_image :: "nat \<Rightarrow> string pending \<Rightarrow> app_state option \<Rightarrow> configuration \<Rightarrow> configuration option" where
  "resume_image j p loop c =
     (case handleGenerateImage_resume j p (live c, wld c) of
        None \<Rightarrow> None
      | Some (st, w) \<Rightarrow> Some (after_call Images loop j (c\<lparr>live := st, wld := w\<rparr>)))"

definition call_image :: "env \<Rightarrow> app_state \<Rightarrow> nat \<Rightarrow> app_state option \<Rightarrow> configuration \<Rightarrow> configuration option" where
  "call_image e cl j loop c =
     (case handleGenerateImage_call e cl j (live c, wld c) of
        None \<Rightarrow> None
      | Some (st, w, None) \<Rightarrow> Some (after_call Images loop j (c\<lparr>live := st, wld := w\<rparr>))
      | Some (st, w, Some p) \<Rightarrow>
          if settles_at_once e then resume_image j p loop (c\<lparr>live := st, wld := w\<rparr>)
          else Some (c\<lparr>live := st, wld := w, tasks := tasks c @ [ImageCall j p loop]\<rparr>))"

definition resume_prompt :: "nat \<Rightarrow> string pending \<Rightarrow> app_state option \<Rightarrow> configuration \<Rightarrow> configuration option" where
  "resume_prompt j p loop c =
     (case handleGeneratePromptForScene_resume j p (live c, wld c) of
        None \<Rightarrow> None
      | Some (st, w) \<Rightarrow> Some (after_call Prompts loop j (c\<lparr>live := st, wld := w\<rparr>)))"

definition call_prompt :: "env \<Rightarrow> app_state \<Rightarrow> nat \<Rightarrow> app_state option \<Rightarrow> configuration \<Rightarrow> configuration option" where
  "call_prompt e cl j loop c =
     (case handleGeneratePromptForScene_call e cl j (wld c) of
        (w, None) \<Rightarrow> Some (after_call Prompts loop j (c\<lparr>wld := w\<rparr>))
      | (w, Some p) \<Rightarrow>
          if settles_at_once e then resume_prompt j p loop (c\<lparr>wld := w\<rparr>)
          else Some (c\<lparr>wld := w, tasks := tasks c @ [PromptCall j p loop]\<rparr>))"

text \<open>
  \<open>handleGenerateAllImages\<close> and \<open>handleGenerateAllPrompts\<close> from index \<open>i\<close> of their loop:
  up to the next \<open>await\<close>, or to the end of the loop.
\<close>

definition handleGenerateAllImages_from :: "env \<Rightarrow> app_state \<Rightarrow> nat \<Rightarrow> configuration \<Rightarrow> configuration option" where
  "handleGenerateAllImages_from e cl i c =
     (case next_index wants_image (scenes cl) i of
        None \<Rightarrow> Some c
      | Some j \<Rightarrow> call_image e cl j (Some cl) c)"

definition handleGenerateAllPrompts_from :: "env \<Rightarrow> app_state \<Rightarrow> nat \<Rightarrow> configuration \<Rightarrow> configuration option" where
  "handleGenerateAllPrompts_from e cl i c =
     (case next_index wants_prompt (scenes cl) i of
        None \<Rightarrow> Some c
      | Some j \<Rightarrow> call_prompt e cl j (Some cl) c)"

text \<open>
  The end of the read of an import file: \<open>handleImport\<close> on the values that the state
  variables hold. \<open>None\<close> when the values stored are no project at the declared types.
\<close>

definition import_read :: "json option \<Rightarrow> configuration \<Rightarrow> configuration option" where
  "import_read parsed c =
     (case handleImport parsed (raw_of (live c), wld c) of
        (r, w) \<Rightarrow>
          (case project_of_raw r of
             None \<Rightarrow> None
           | Some p \<Rightarrow>
               Some (c\<lparr>live := (live c)\<lparr>style := p_style p, story := p_story p,
                                       casting := p_casting p, scenes := p_scenes p\<rparr>,
                       wld := w\<rparr>)))"

text \<open>A pending task ends.\<close>

fun complete :: "env \<Rightarrow> task \<Rightarrow> configuration \<Rightarrow> configuration option" where
  "complete e (ImageCall j p loop) c = resume_image j p loop c"
| "complete e (PromptCall j p loop) c = resume_prompt j p loop c"
| "complete e (Pause Images cl j) c = handleGenerateAllImages_from e cl (Suc j) c"
| "complete e (Pause Prompts cl j) c = handleGenerateAllPrompts_from e cl (Suc j) c"
| "complete e (StoryboardCall r) c =
     (case handleGenerateStoryboard_resume r (live c, wld c) of
        (st, w) \<Rightarrow> Some (c\<lparr>live := st, wld := w\<rparr>))"
| "complete e (CharacterImageRead casting' cid url) c =
     Some (c\<lparr>live := handleUpdateCharacter casting' cid FReferenceImage url (live c)\<rparr>)"
| "complete e (ImportRead parsed) c = import_read parsed c"

text \<open>
  The events: those of the interface, each handled by the handler of the current
  render, and the end of the pending task at a position. \<open>None\<close>: the state leaves the
  declared types, or there is no such task.
\<close>

datatype event =
    SetStyle string
  | SetStory string
  | SetBatchScenesText string
  | AddCharacter string
  | UpdateCharacter string character_field string
  | RemoveCharacter string
  | ChooseCharacterImage string string
  | ClickGenerateStoryboard
  | ClickBatchAdd
  | Toggle nat string
  | EditPrompt nat string
  | DeleteScene nat
  | ClickGeneratePrompt nat
  | ClickGenerateImage nat
  | ClickAllPrompts
  | ClickAllImages
  | ChooseImportFile "json option"
  | Complete nat

fun step :: "env \<Rightarrow> event \<Rightarrow> configuration \<Rightarrow> configuration option" where
  "step e (SetStyle v) c = Some (c\<lparr>live := (live c)\<lparr>style := v\<rparr>\<rparr>)"
| "step e (SetStory v) c = Some (c\<lparr>live := (live c)\<lparr>story := v\<rparr>\<rparr>)"
| "step e (SetBatchScenesText v) c = Some (c\<lparr>live := (live c)\<lparr>batchScenesText := v\<rparr>\<rparr>)"
| "step e (AddCharacter uuid) c = Some (c\<lparr>live := handleAddCharacter uuid (live c)\<rparr>)"
| "step e (UpdateCharacter cid field v) c =
     Some (c\<lparr>live := handleUpdateCharacter (casting (live c)) cid field v (live c)\<rparr>)"
| "step e (RemoveCharacter cid) c = Some (c\<lparr>live := handleRemoveCharacter cid (live c)\<rparr>)"
| "step e (ChooseCharacterImage cid url) c =
     Some (c\<lparr>tasks := tasks c @ [CharacterImageRead (casting (live c)) cid url]\<rparr>)"
| "step e ClickGenerateStoryboard c =
     (case handleGenerateStoryboard_call e (live c, wld c) of
        (st, w, None) \<Rightarrow> Some (c\<lparr>live := st, wld := w\<rparr>)
      | (st, w, Some r) \<Rightarrow>
          if settles_at_once e then complete e (StoryboardCall r) (c\<lparr>live := st, wld := w\<rparr>)
          else Some (c\<lparr>live := st, wld := w, tasks := tasks c @ [StoryboardCall r]\<rparr>))"
| "step e ClickBatchAdd c = Some (c\<lparr>live := handleBatchAddScenes (live c)\<rparr>)"
| "step e (Toggle i cid) c =
     (case toggleCharacterInScene i cid (live c) of
        None \<Rightarrow> None | Some st \<Rightarrow> Some (c\<lparr>live := st\<rparr>))"
| "step e (EditPrompt i v) c =
     (case editVisualPrompt i v (live c) of None \<Rightarrow> None | Some st \<Rightarrow> Some (c\<lparr>live := st\<rparr>))"
| "step e (DeleteScene i) c = Some (c\<lparr>live := deleteScene i (live c)\<rparr>)"
| "step e (ClickGeneratePrompt i) c = call_prompt e (live c) i None c"
| "step e (ClickGenerateImage i) c = call_image e (live c) i None c"
| "step e ClickAllPrompts c = handleGenerateAllPrompts_from e (live c) 0 c"
| "step e ClickAllImages c = handleGenerateAllImages_from e (live c) 0 c"
| "step e (ChooseImportFile parsed) c = Some (c\<lparr>tasks := tasks c @ [ImportRead parsed]\<rparr>)"
| "step e (Complete k) c =
     (if k < length (tasks c)
      then complete e (tasks c ! k) (c\<lparr>tasks := take k (tasks c) @ drop (Suc k) (tasks c)\<rparr>)
      else None)"

text \<open>
  What the interface offers in a configuration. A scene card shows its delete button,
  its prompt field, its button \<open>Gerar Prompt\<close>, and one toggle for each member of the
  cast; its button \<open>Gerar Imagem\<close> is shown when the scene has no image and is not
  generating one, and is disabled when the prompt is blank. A character card changes
  the name, the prompt and the reference image of its character, never an id, and
  offers the upload of an image when the character has none. The two batch buttons
  are shown when there is a scene; the storyboard and the batch-add button are
  disabled as the source says. Only a pending task can end.
\<close>

definition has_card :: "nat \<Rightarrow> configuration \<Rightarrow> bool" where
  "has_card i c = (i < length (scenes (live c)))"

definition in_cast :: "string \<Rightarrow> configuration \<Rightarrow> bool" where
  "in_cast cid c = (cid \<in> set (map id' (casting (live c))))"

fun offered :: "event \<Rightarrow> configuration \<Rightarrow> bool" where
  "offered (UpdateCharacter cid field v) c = (field \<noteq> FId \<and> in_cast cid c)"
| "offered (RemoveCharacter cid) c = in_cast cid c"
| "offered (ChooseCharacterImage cid url) c =
     list_ex (\<lambda>ch. id' ch = cid \<and> \<not> truthy_opt (referenceImage ch)) (casting (live c))"
| "offered ClickGenerateStoryboard c =
     (\<not> isGeneratingStoryboard (live c) \<and> truthy (trim (story (live c))))"
| "offered ClickBatchAdd c = truthy (trim (batchScenesText (live c)))"
| "offered (Toggle i cid) c = (has_card i c \<and> in_cast cid c)"
| "offered (EditPrompt i v) c = has_card i c"
| "offered (DeleteScene i) c = has_card i c"
| "offered (ClickGeneratePrompt i) c = has_card i c"
| "offered (ClickGenerateImage i) c =
     (has_card i c \<and> \<not> truthy_opt (imageUrl (scenes (live c) ! i))
      \<and> \<not> truthy_flag (isGeneratingImage (scenes (live c) ! i))
      \<and> truthy (trim (visualPrompt (scenes (live c) ! i))))"
| "offered ClickAllPrompts c = (scenes (live c) \<noteq> [])"
| "offered ClickAllImages c = (scenes (live c) \<noteq> [])"
| "offered (Complete k) c = (k < length (tasks c))"
| "offered ev c = True"

text \<open>The events of a list, handled in turn.\<close>

fun run :: "env \<Rightarrow> event list \<Rightarrow> configuration \<Rightarrow> configuration option" where
  "run e [] c = Some c"
| "run e (ev # evs) c =
     (if offered ev c
      then (case step e ev c of None \<Rightarrow> None | Some c' \<Rightarrow> run e evs c')
      else None)"

text \<open>
  The events that the statement on referential integrity leaves out: the end of the
  read of an import file, when the project it leaves has a scene that selects an id
  of no character; and the end of the read of a character's image file, when the cast
  is no longer the cast of the render that started the read.
\<close>

fun keeps_references :: "event \<Rightarrow> configuration \<Rightarrow> bool" where
  "keeps_references (Complete k) c =
     (case tasks c ! k of
        ImportRead parsed \<Rightarrow>
          (case import_read parsed c of
             None \<Rightarrow> True
           | Some c' \<Rightarrow> referential_integrity (casting (live c')) (scenes (live c')))
      | CharacterImageRead casting' cid url \<Rightarrow> casting' = casting (live c)
      | _ \<Rightarrow> True)"
| "keeps_references ev c = True"

text \<open>
  The configurations reached from the initial one by offered events that pass a test:
  with the test always true, the reachable configurations.
\<close>

inductive reachable_by :: "(event \<Rightarrow> configuration \<Rightarrow> bool) \<Rightarrow> env \<Rightarrow> configuration \<Rightarrow> bool"
  for allowed :: "event \<Rightarrow> configuration \<Rightarrow> bool" and e :: env where
  r_init: "reachable_by allowed e initial_configuration"
| r_step: "reachable_by allowed e c \<Longrightarrow> offered ev c \<Longrightarrow> allowed ev c \<Longrightarrow> step e ev c = Some c'
     \<Longrightarrow> reachable_by allowed e c'"


text \<open>Every scene of a configuration selects only ids of its cast.\<close>

definition intact :: "configuration \<Rightarrow> bool" where
  "intact c = referential_integrity (casting (live c)) (scenes (live c))"

text \<open>Every event of a list passes a test at the configuration where it is handled.\<close>

fun all_allowed :: "(event \<Rightarrow> configuration \<Rightarrow> bool) \<Rightarrow> env \<Rightarrow> event list \<Rightarrow> configuration \<Rightarrow> bool" where
  "all_allowed allowed e [] c = True"
| "all_allowed allowed e (ev # evs) c =
     (allowed ev c \<and> (case step e ev c of None \<Rightarrow> True | Some c' \<Rightarrow> all_allowed allowed e evs c'))"

section \<open>Named values of the statements\<close>

text \<open>
  The error of the three client functions for a missing key, and the errors they raise
  themselves for a response they cannot use.
\<close>

definition configuration_error :: js_error where
  "configuration_error = Error ''GEMINI_API_KEY is missing''"

definition generation_errors :: "js_error list" where
  "generation_errors =
     [Error ''Nenhuma resposta recebida da IA.'',
      Error ''Erro ao interpretar a resposta da IA como JSON.'',
      Error ''Nenhuma imagem retornada pela IA.'']"

text \<open>
  The parts that one character adds to an image request: its reference image, when
  the data-URI pattern matches it.
\<close>

definition reference_part :: "character \<Rightarrow> part list" where
  "reference_part c =
     (case referenceImage c of
        None \<Rightarrow> []
      | Some r \<Rightarrow> (case match_data_uri r of None \<Rightarrow> [] | Some (m, d) \<Rightarrow> [InlineData m d]))"

definition is_image_part :: "part \<Rightarrow> bool" where
  "is_image_part p = (case p of InlineData m d \<Rightarrow> True | TextPart t \<Rightarrow> False)"

subsection \<open>Concrete inputs\<close>

text \<open>An environment without a key, and one with a key whose service answers with no text and no part.\<close>

definition env_no_key :: env where
  "env_no_key = \<lparr>apiKey = None, network = (\<lambda>h r. Inr \<lparr>resp_text = None, resp_parts = []\<rparr>),
                  parseScenes = (\<lambda>t. None)\<rparr>"

definition env_empty_answer :: env where
  "env_empty_answer = \<lparr>apiKey = Some ''key'',
                        network = (\<lambda>h r. Inr \<lparr>resp_text = None, resp_parts = []\<rparr>),
                        parseScenes = (\<lambda>t. None)\<rparr>"

text \<open>A character whose reference image is an uploaded SVG file, as \<open>readAsDataURL\<close> encodes it.\<close>

definition svg_character :: character where
  "svg_character = \<lparr>id' = ''c1'', name = ''Ana'', prompt = ''red coat'',
     referenceImage = Some ''data:image/svg+xml;base64,PHN2Zz48L3N2Zz4=''\<rparr>"

text \<open>A character whose reference image is a PNG data URI.\<close>

definition png_character :: character where
  "png_character = \<lparr>id' = ''c2'', name = ''Bo'', prompt = ''tall'',
     referenceImage = Some ''data:image/png;base64,QUJD''\<rparr>"

text \<open>An environment with a key whose service rejects every request.\<close>

definition env_rejecting :: env where
  "env_rejecting = \<lparr>apiKey = Some ''key'', network = (\<lambda>h r. Inl (Error ''503'')),
                     parseScenes = (\<lambda>t. None)\<rparr>"

definition scene_with_image :: scene where
  "scene_with_image = \<lparr>sceneNumber = Finite 1, textExcerpt = ''A door opens.'', characters = [],
     selectedCharacterIds = Some [], visualPrompt = ''a door'',
     imageUrl = Some ''data:image/png;base64,AAAA'', isGeneratingImage = None\<rparr>"

definition state_one_scene :: app_state where
  "state_one_scene = initial_state\<lparr>scenes := [scene_with_image]\<rparr>"

text \<open>An environment with a key whose service answers every request with one image.\<close>

definition env_image :: env where
  "env_image = \<lparr>apiKey = Some ''key'',
                 network = (\<lambda>h r. Inr \<lparr>resp_text = None, resp_parts = [InlineData ''image/png'' ''QUJD'']\<rparr>),
                 parseScenes = (\<lambda>t. None)\<rparr>"

text \<open>Four scenes: the first and the third have an image, the second has no prompt, the fourth has a prompt and no image.\<close>

definition state_four_scenes :: app_state where
  "state_four_scenes = initial_state\<lparr>scenes :=
     [scene_with_image,
      \<lparr>sceneNumber = Finite 2, textExcerpt = ''She waits.'', characters = [], selectedCharacterIds = Some [],
       visualPrompt = [], imageUrl = None, isGeneratingImage = None\<rparr>,
      scene_with_image\<lparr>sceneNumber := Finite 3\<rparr>,
      \<lparr>sceneNumber = Finite 4, textExcerpt = ''Rain.'', characters = [], selectedCharacterIds = Some [],
       visualPrompt = ''rain on a window'', imageUrl = None, isGeneratingImage = None\<rparr>]\<rparr>"

text \<open>
  A state with one character, selected in its one scene: the interface reaches it by
  adding the character, batch-adding one line and toggling the character in the scene.
\<close>

definition state_cast_selected :: app_state where
  "state_cast_selected = initial_state
     \<lparr>scenes := [\<lparr>sceneNumber = Finite 1, textExcerpt = ''A door opens.'', characters = [],
                   selectedCharacterIds = Some [''c1''], visualPrompt = [], imageUrl = None,
                   isGeneratingImage = None\<rparr>],
      casting := [\<lparr>id' = ''c1'', name = [], prompt = [], referenceImage = None\<rparr>]\<rparr>"



text \<open>
  An environment whose service answers the storyboard request with one scene numbered
  \<open>1e999\<close>, which \<open>JSON.parse\<close> reads as an infinity; the state and the world that the
  generation of a storyboard then leaves.
\<close>

definition scene_infinite_number :: scene where
  "scene_infinite_number = \<lparr>sceneNumber = PosInfinity, textExcerpt = ''Once'', characters = [],
     selectedCharacterIds = None, visualPrompt = ''a door'', imageUrl = None,
     isGeneratingImage = None\<rparr>"

definition overflow_answer :: string where
  "overflow_answer =
         ''[{'' @ [CHR 0x22] @ ''sceneNumber'' @ [CHR 0x22] @ '':1e999,'' @ [CHR 0x22] @
         ''textExcerpt'' @ [CHR 0x22] @ '':'' @ [CHR 0x22] @ ''Once'' @ [CHR 0x22] @ '','' @
         [CHR 0x22] @ ''characters'' @ [CHR 0x22] @ '':'' @ [CHR 0x22, CHR 0x22] @ '','' @
         [CHR 0x22] @ ''visualPrompt'' @ [CHR 0x22] @ '':'' @ [CHR 0x22] @ ''a door'' @
         [CHR 0x22] @ ''}]''"

definition env_overflow :: env where
  "env_overflow = \<lparr>apiKey = Some ''key'',
     network = (\<lambda>h r. Inr \<lparr>resp_text = Some overflow_answer, resp_parts = []\<rparr>),
     parseScenes = (\<lambda>t. Some [scene_infinite_number])\<rparr>"

definition state_infinite_number :: app_state where
  "state_infinite_number = initial_state
     \<lparr>story := ''Once'', scenes := [scene_infinite_number\<lparr>selectedCharacterIds := Some []\<rparr>]\<rparr>"

definition world_overflow :: world where
  "world_overflow =
     \<lparr>sent = [\<lparr>model = ''gemini-3.1-pro-preview'',
               contents = Prompt (storyboard_prompt ''dark fantasy ink illustration como Junji Ito'' ''Once''),
               config = JsonScenesConfig\<rparr>],
      alerts = []\<rparr>"


text \<open>
  An environment with a key whose service answers every request with a text and one
  image; and one whose image is that of the position of the request among those sent.
\<close>

definition env_answering :: env where
  "env_answering = \<lparr>apiKey = Some ''key'',
     network = (\<lambda>h r. Inr \<lparr>resp_text = Some ''a wide shot'',
                               resp_parts = [InlineData ''image/png'' ''QUJD'']\<rparr>),
     parseScenes = (\<lambda>t. None)\<rparr>"

definition env_numbered :: env where
  "env_numbered = \<lparr>apiKey = Some ''key'',
     network = (\<lambda>h r. Inr \<lparr>resp_text = None,
                               resp_parts = [InlineData ''image/png''
                                  ([''Rmlyc3Q='', ''U2Vjb25k'', ''VGhpcmQ=''] ! min (length h) 2)]\<rparr>),
     parseScenes = (\<lambda>t. None)\<rparr>"

text \<open>Three lines of batch text.\<close>

definition three_lines :: string where
  "three_lines = ''A'' @ [CHR 0x0A] @ ''B'' @ [CHR 0x0A] @ ''C''"
section \<open>Batch-adding scenes\<close>

lemma trim_empty_iff: "trim s = [] \<longleftrightarrow> (\<forall>c \<in> set s. is_ws c)"
proof
  assume "trim s = []"
  then have all: "\<forall>c \<in> set (dropWhile is_ws s). is_ws c"
    by (simp add: trim_def dropWhile_eq_Nil_conv)
  have "dropWhile is_ws s = []"
  proof (rule ccontr)
    assume ne: "dropWhile is_ws s \<noteq> []"
    then have "\<not> is_ws (hd (dropWhile is_ws s))" by (rule hd_dropWhile)
    moreover have "hd (dropWhile is_ws s) \<in> set (dropWhile is_ws s)" using ne by simp
    ultimately show False using all by blast
  qed
  then show "\<forall>c \<in> set s. is_ws c" by (simp add: dropWhile_eq_Nil_conv)
next
  assume "\<forall>c \<in> set s. is_ws c"
  then have d: "dropWhile is_ws s = []" by (induction s) auto
  show "trim s = []" unfolding trim_def d by simp
qed

lemma set_split_on: "\<forall>l \<in> set (split_on sep s). set l \<subseteq> set s"
proof (induction s)
  case Nil
  show ?case by simp
next
  case (Cons c cs)
  show ?case
  proof (cases "split_on sep cs")
    case Nil
    then show ?thesis using Cons by auto
  next
    case (Cons l ls)
    then show ?thesis using Cons.IH by auto
  qed
qed

lemma enumerate_map_nth:
  "map (\<lambda>(i, x). f i x) (enumerate 0 xs) = map (\<lambda>j. f j (xs ! j)) [0..<length xs]"
  by (rule nth_equalityI) (simp_all add: nth_enumerate_eq)

text \<open>
  C5. Batch-adding a text to a scene list of length \<open>n\<close> appends, after the existing
  scenes and leaving them as they are, one scene for each line of the text that is not
  blank, in the order of the lines. The \<open>j\<close>-th of them (from 0) has the number
  \<open>n + j + 1\<close> and the trimmed line as its excerpt; its prompt and its character
  summary are empty, it has no image, no generating flag, and an empty selection.
  Blank lines add nothing.
\<close>

theorem batch_add_appends_numbered_scenes:
  "scenes (handleBatchAddScenes st) =
     scenes st @
     map (\<lambda>j. \<lparr>sceneNumber = Finite (of_nat (length (scenes st) + j + 1)),
               textExcerpt =
                 trim (filter (\<lambda>l. trim l \<noteq> []) (split_on (CHR 0x0A) (batchScenesText st)) ! j),
               characters = [], selectedCharacterIds = Some [], visualPrompt = [],
               imageUrl = None, isGeneratingImage = None\<rparr>)
         [0..<length (filter (\<lambda>l. trim l \<noteq> []) (split_on (CHR 0x0A) (batchScenesText st)))]"
proof (cases "trim (batchScenesText st) = []")
  case True
  then have ws: "\<forall>c \<in> set (batchScenesText st). is_ws c" by (simp add: trim_empty_iff)
  have "\<forall>l \<in> set (split_on (CHR 0x0A) (batchScenesText st)). trim l = []"
    using ws set_split_on [of "CHR 0x0A" "batchScenesText st"] by (auto simp: trim_empty_iff)
  then have "filter (\<lambda>l. trim l \<noteq> []) (split_on (CHR 0x0A) (batchScenesText st)) = []"
    by (simp add: filter_empty_conv)
  with True show ?thesis by (simp add: handleBatchAddScenes_def truthy_def)
next
  case False
  then show ?thesis
    by (simp add: handleBatchAddScenes_def truthy_def Let_def enumerate_map_nth batch_scene_def)
qed

theorem batch_add_witness:
  "scenes (handleBatchAddScenes (state_one_scene\<lparr>batchScenesText := ''Dawn.\<newline>\<newline>  Rain. ''\<rparr>)) =
     [scene_with_image,
      \<lparr>sceneNumber = Finite 2, textExcerpt = ''Dawn.'', characters = [], selectedCharacterIds = Some [],
       visualPrompt = [], imageUrl = None, isGeneratingImage = None\<rparr>,
      \<lparr>sceneNumber = Finite 3, textExcerpt = ''Rain.'', characters = [], selectedCharacterIds = Some [],
       visualPrompt = [], imageUrl = None, isGeneratingImage = None\<rparr>]"
  using batch_add_appends_numbered_scenes
    [of "state_one_scene\<lparr>batchScenesText := ''Dawn.\<newline>\<newline>  Rain. ''\<rparr>"]
  by (simp add: state_one_scene_def initial_state_def trim_def is_ws_def upt_rec)

section \<open>The generation client\<close>

text \<open>
  With a key, an error of a client function is either the rejection of its request or one
  of \<open>generation_errors\<close>.
\<close>

lemma storyboard_error_origin:
  assumes "truthy_opt (apiKey e)" and "fst (generateStoryboard e style' story' w) = Inl err"
  shows "err \<in> set generation_errors
       \<or> network e (sent w) \<lparr>model = ''gemini-3.1-pro-preview'',
            contents = Prompt (storyboard_prompt style' story'), config = JsonScenesConfig\<rparr> = Inl err"
  using assms
  by (auto simp: generateStoryboard_def generateContent_def generation_errors_def
      split: sum.splits option.splits if_splits)

lemma image_error_origin:
  assumes "truthy_opt (apiKey e)" and "fst (generateImageForScene e prompt' style' characters' w) = Inl err"
  shows "err \<in> set generation_errors
       \<or> network e (sent w) \<lparr>model = ''gemini-2.5-flash-image'',
            contents = Parts (image_request_parts prompt' style' characters'),
            config = ImageConfig ''16:9''\<rparr> = Inl err"
  using assms
  by (auto simp: generateImageForScene_def generateContent_def generation_errors_def
      split: sum.splits option.splits if_splits)

text \<open>
  C8. Without a credential (the key undefined or empty) each of the three client
  functions returns the error \<open>GEMINI_API_KEY is missing\<close> and leaves the world as it
  was: no request has been sent. That error is none of the errors the functions raise
  for an unusable response.
\<close>

theorem missing_credential_raises_before_any_request:
  assumes "\<not> truthy_opt (apiKey e)"
  shows "generateStoryboard e style' story' w = (Inl configuration_error, w)
       \<and> generateImageForScene e prompt' style' characters' w = (Inl configuration_error, w)
       \<and> generatePromptForScene e style' textExcerpt' characters' w = (Inl configuration_error, w)
       \<and> configuration_error \<notin> set generation_errors"
  using assms
  by (simp add: generateStoryboard_def generateImageForScene_def generatePromptForScene_def
      configuration_error_def generation_errors_def)

theorem missing_credential_witness:
  "\<not> truthy_opt (apiKey env_no_key)
   \<and> generateStoryboard env_no_key ''noir'' ''Once'' world0
       = (Inl (Error ''GEMINI_API_KEY is missing''), world0)
   \<and> generateImageForScene env_no_key ''a door'' ''noir'' [] world0
       = (Inl (Error ''GEMINI_API_KEY is missing''), world0)
   \<and> generatePromptForScene env_no_key ''noir'' ''Once'' [] world0
       = (Inl (Error ''GEMINI_API_KEY is missing''), world0)"
proof -
  have k: "\<not> truthy_opt (apiKey env_no_key)" by (simp add: env_no_key_def truthy_opt_def)
  show ?thesis
    using k missing_credential_raises_before_any_request
      [OF k, of "''noir''" "''Once''" world0 "''a door''" "[]" "''Once''"]
    by (simp add: configuration_error_def)
qed

text \<open>
  C7, as stated, fails: with a key, when the service answers a prompt request with a
  response that has no text, \<open>generatePromptForScene\<close> returns the empty string.
\<close>

theorem generate_prompt_missing_text_counterexample:
  "truthy_opt (apiKey env_empty_answer)
   \<and> network env_empty_answer (sent world0)
        \<lparr>model = ''gemini-3.1-pro-preview'',
         contents = Prompt (scene_prompt_request ''noir'' ''A door opens.'' []), config = NoConfig\<rparr>
      = Inr \<lparr>resp_text = None, resp_parts = []\<rparr>
   \<and> fst (generatePromptForScene env_empty_answer ''noir'' ''A door opens.'' [] world0) = Inr []"
  by (simp add: generatePromptForScene_def generateContent_def env_empty_answer_def
      truthy_opt_def truthy_def)

text \<open>
  C7, amended. With a key, \<open>generatePromptForScene\<close> fails exactly when its request is
  rejected, with that rejection; when the service answers, it returns the text of the
  response, and the empty string when the text is missing or empty.
\<close>

theorem generate_prompt_returns_text_or_empty:
  assumes "truthy_opt (apiKey e)"
  shows "fst (generatePromptForScene e style' textExcerpt' characters' w) =
     (case network e (sent w)
             \<lparr>model = ''gemini-3.1-pro-preview'',
              contents = Prompt (scene_prompt_request style' textExcerpt' characters'),
              config = NoConfig\<rparr> of
        Inl err \<Rightarrow> Inl err
      | Inr resp \<Rightarrow> Inr (case resp_text resp of None \<Rightarrow> [] | Some t \<Rightarrow> t))"
  using assms
  by (auto simp: generatePromptForScene_def generateContent_def truthy_opt_def truthy_def
      split: sum.splits option.splits)

theorem generate_prompt_returns_text_or_empty_witness:
  "truthy_opt (apiKey env_empty_answer)
   \<and> fst (generatePromptForScene env_empty_answer ''noir'' ''A door opens.'' [] world0) = Inr []"
proof -
  have k: "truthy_opt (apiKey env_empty_answer)"
    by (simp add: env_empty_answer_def truthy_opt_def truthy_def)
  show ?thesis
    using k generate_prompt_returns_text_or_empty
      [OF k, of "''noir''" "''A door opens.''" "[]" world0]
    by (simp add: env_empty_answer_def)
qed

subsection \<open>The image request\<close>

lemma match_data_uri_Nil: "match_data_uri [] = None"
  by (simp add: match_data_uri_def)

lemma push_reference_parts_eq:
  "push_reference_parts cs acc = acc @ concat (map reference_part cs)"
proof (induction cs arbitrary: acc)
  case Nil
  show ?case by simp
next
  case (Cons c cs)
  show ?case
    by (simp add: Cons.IH reference_part_def truthy_opt_def truthy_def match_data_uri_Nil
        split: option.splits)
qed

lemma strip_prefix_Some: "strip_prefix p s = Some r \<longleftrightarrow> s = p @ r"
  by (induction p s rule: strip_prefix.induct) auto

lemma semicolon_not_word: "\<not> is_word_char (CHR '';'')"
  by (simp add: is_word_char_def)

text \<open>
  What the pattern accepts: \<open>data:image/\<close>, a non-empty run of word characters,
  \<open>;base64,\<close> and a non-empty rest without a line terminator.
\<close>

lemma match_data_uri_iff:
  "match_data_uri s = Some (m, d) \<longleftrightarrow>
     (\<exists>w. s = ''data:image/'' @ w @ '';base64,'' @ d \<and> m = ''image/'' @ w
          \<and> w \<noteq> [] \<and> (\<forall>c \<in> set w. is_word_char c)
          \<and> d \<noteq> [] \<and> (\<forall>c \<in> set d. \<not> is_line_terminator c))"
proof
  assume a: "match_data_uri s = Some (m, d)"
  then obtain r where r: "s = ''data:image/'' @ r"
    by (auto simp: match_data_uri_def strip_prefix_Some split: option.splits
        simp del: strip_prefix.simps)
  have sp: "strip_prefix ''data:image/'' s = Some r" using r by (simp only: strip_prefix_Some)
  let ?w = "takeWhile is_word_char r"
  from a sp have w: "?w \<noteq> []" and rest: "dropWhile is_word_char r = '';base64,'' @ d"
    and m: "m = ''image/'' @ ?w" and d: "d \<noteq> []" "list_all (\<lambda>c. \<not> is_line_terminator c) d"
    by (auto simp: match_data_uri_def Let_def strip_prefix_Some split: option.splits if_splits
        simp del: strip_prefix.simps)
  have "r = ?w @ '';base64,'' @ d"
    using rest takeWhile_dropWhile_id [of is_word_char r] by metis
  moreover have "\<forall>c \<in> set ?w. is_word_char c" by (auto dest: set_takeWhileD)
  ultimately show "\<exists>w. s = ''data:image/'' @ w @ '';base64,'' @ d \<and> m = ''image/'' @ w
          \<and> w \<noteq> [] \<and> (\<forall>c \<in> set w. is_word_char c)
          \<and> d \<noteq> [] \<and> (\<forall>c \<in> set d. \<not> is_line_terminator c)"
    using r w m d by (auto simp: list_all_iff)
next
  assume "\<exists>w. s = ''data:image/'' @ w @ '';base64,'' @ d \<and> m = ''image/'' @ w
          \<and> w \<noteq> [] \<and> (\<forall>c \<in> set w. is_word_char c)
          \<and> d \<noteq> [] \<and> (\<forall>c \<in> set d. \<not> is_line_terminator c)"
  then obtain w where s: "s = ''data:image/'' @ w @ '';base64,'' @ d" and m: "m = ''image/'' @ w"
    and w: "w \<noteq> []" "\<forall>c \<in> set w. is_word_char c"
    and d: "d \<noteq> []" "\<forall>c \<in> set d. \<not> is_line_terminator c" by blast
  have sp: "strip_prefix ''data:image/'' s = Some (w @ '';base64,'' @ d)"
    using s by (simp only: strip_prefix_Some)
  have tw: "takeWhile is_word_char (w @ '';base64,'' @ d) = w"
    using w(2) semicolon_not_word by (simp add: takeWhile_append2)
  have dw: "dropWhile is_word_char (w @ '';base64,'' @ d) = '';base64,'' @ d"
    using w(2) semicolon_not_word by (simp add: dropWhile_append2)
  have sp2: "strip_prefix '';base64,'' ('';base64,'' @ d) = Some d"
    by (simp only: strip_prefix_Some)
  show "match_data_uri s = Some (m, d)"
    unfolding match_data_uri_def sp using tw dw sp2 w(1) d m
    by (simp add: Let_def list_all_iff del: strip_prefix.simps)
qed

lemma character_line_eq: "character_line = (\<lambda>c. ''- '' @ name c @ '': '' @ prompt c)"
  by (rule ext) (simp add: character_line_def)

text \<open>
  C9, as stated, fails: a character whose reference image is the data URI of an SVG
  file has a reference image, and the request holds no image part for it.
\<close>

theorem image_request_skips_svg_counterexample:
  "truthy_opt (referenceImage svg_character)
   \<and> length (filter is_image_part (image_request_parts ''a door'' ''noir'' [svg_character])) = 0
   \<and> length (filter (\<lambda>c. truthy_opt (referenceImage c)) [svg_character]) = 1"
  by (simp add: image_request_parts_def svg_character_def truthy_opt_def truthy_def
      match_data_uri_def is_word_char_def is_image_part_def)

text \<open>
  C9, amended. The request of \<open>generateImageForScene\<close> consists of one image part for
  each character whose reference image matches the pattern
  \<open>data:image/<word>;base64,<data>\<close>, in the order of the characters and carrying the
  media type and the data of the match, and nothing for any other character; then the
  text part. The text is the style, the scene description and, when there is a
  character, one line \<open>- name: prompt\<close> for each character followed by the instruction
  on character consistency.
\<close>

theorem image_request_parts_in_cast_order:
  "image_request_parts prompt' style' characters' =
     concat (map reference_part characters') @
     [TextPart (''Style: '' @ style' @ ''. \<newline>Scene description: '' @ prompt' @
        (if characters' = [] then []
         else ''\<newline>Characters in scene:\<newline>'' @
              join_nl (map (\<lambda>c. ''- '' @ name c @ '': '' @ prompt c) characters') @
              ''\<newline>(Please maintain character consistency with the provided reference images if any).''))]"
  unfolding image_request_parts_def push_reference_parts_eq full_image_prompt_def
    character_line_eq
  by simp

theorem image_request_witness:
  "image_request_parts ''a door'' ''noir'' [svg_character, png_character] =
     [InlineData ''image/png'' ''QUJD'',
      TextPart ''Style: noir. \<newline>Scene description: a door\<newline>Characters in scene:\<newline>- Ana: red coat\<newline>- Bo: tall\<newline>(Please maintain character consistency with the provided reference images if any).'']"
  using image_request_parts_in_cast_order [of "''a door''" "''noir''" "[svg_character, png_character]"]
  by (simp add: reference_part_def svg_character_def png_character_def match_data_uri_def
      is_word_char_def is_line_terminator_def)

section \<open>Export and import\<close>

lemma all_some_map:
  assumes "\<And>x. f (g x) = Some x"
  shows "all_some (map (f \<circ> g) xs) = Some xs"
  by (induction xs) (simp_all add: assms)

lemma character_of_json_of_character: "character_of_json (json_of_character c) = Some c"
  by (cases "referenceImage c") (simp_all add: character_of_json_def json_of_character_def)

lemma str_of_json_JStr: "str_of_json (JStr x) = Some x"
  by simp

lemma scene_of_json_of_scene: "scene_of_json (json_of_scene s) = Some s"
  by (cases "selectedCharacterIds s"; cases "imageUrl s"; cases "isGeneratingImage s")
     (simp_all add: scene_of_json_def json_of_scene_def ids_of_json_def opt_str_of_json_def
        opt_bool_of_json_def all_some_map [of str_of_json JStr])

lemma project_of_raw_raw_of: "project_of_raw (raw_of st) = Some (project_of st)"
  by (simp add: project_of_raw_def raw_of_def project_of_def
      all_some_map [of character_of_json json_of_character, OF character_of_json_of_character]
      all_some_map [of scene_of_json json_of_scene, OF scene_of_json_of_scene])

lemma written_json_of_character: "written (json_of_character c) = json_of_character c"
  by (cases "referenceImage c") (simp_all add: json_of_character_def)

lemma written_strings: "map written (map JStr ids) = map JStr ids"
  by (induction ids) simp_all

lemma written_json_of_scene:
  "is_finite (sceneNumber s) \<Longrightarrow> written (json_of_scene s) = json_of_scene s"
  by (cases "selectedCharacterIds s"; cases "imageUrl s"; cases "isGeneratingImage s")
     (simp_all add: json_of_scene_def written_strings)

lemma written_scenes:
  "list_all (\<lambda>s. is_finite (sceneNumber s)) scs \<Longrightarrow>
     map written (map json_of_scene scs) = map json_of_scene scs"
  by (induction scs) (simp_all add: written_json_of_scene)

lemma written_cast: "map written (map json_of_character cs) = map json_of_character cs"
  by (induction cs) (simp_all add: written_json_of_character)

lemma handleImport_export:
  assumes "list_all (\<lambda>s. is_finite (sceneNumber s)) (scenes st)"
  shows "handleImport (Some (descriptor (handleExport st))) (r, w) = (raw_of st, w)"
proof -
  have "descriptor (handleExport st) =
      JObj [(''style'', JStr (style st)), (''story'', JStr (story st)),
            (''casting'', JArr (map json_of_character (casting st))),
            (''scenes'', JArr (map json_of_scene (scenes st)))]"
    using written_scenes [OF assms] written_cast [of "casting st"]
    by (simp add: handleExport_def)
  then show ?thesis by (simp add: raw_of_def)
qed

text \<open>
  C3, as stated, fails: a storyboard answer with the scene number \<open>1e999\<close> leaves a
  scene whose number is infinite; the exported descriptor holds \<open>null\<close> for it, and what
  the import of that descriptor stores is no project with that scene.
\<close>

theorem export_import_loses_infinite_number_counterexample:
  "run env_overflow [SetStory ''Once'', ClickGenerateStoryboard, Complete 0] initial_configuration
     = Some \<lparr>live = state_infinite_number, wld = world_overflow, tasks = []\<rparr>
   \<and> get_prop (descriptor (handleExport state_infinite_number)) ''scenes''
       = Some (JArr [JObj [(''sceneNumber'', JNull), (''textExcerpt'', JStr ''Once''),
                           (''characters'', JStr []), (''selectedCharacterIds'', JArr []),
                           (''visualPrompt'', JStr ''a door'')]])
   \<and> project_of_raw (fst (handleImport (Some (descriptor (handleExport state_infinite_number)))
                            (raw_of state_infinite_number, world0))) = None
   \<and> project_of_raw (raw_of state_infinite_number) = Some (project_of state_infinite_number)"
proof -
  have a: "run env_overflow [SetStory ''Once'', ClickGenerateStoryboard, Complete 0] initial_configuration
     = Some \<lparr>live = state_infinite_number, wld = world_overflow, tasks = []\<rparr>"
    by (simp add: initial_configuration_def initial_state_def world0_def env_overflow_def
        state_infinite_number_def world_overflow_def scene_infinite_number_def
        handleGenerateStoryboard_call_def handleGenerateStoryboard_resume_def
        generateStoryboard_def generateContent_def settles_at_once_def truthy_opt_def truthy_def
        overflow_answer_def trim_def is_ws_def)
  have b: "get_prop (descriptor (handleExport state_infinite_number)) ''scenes''
       = Some (JArr [JObj [(''sceneNumber'', JNull), (''textExcerpt'', JStr ''Once''),
                           (''characters'', JStr []), (''selectedCharacterIds'', JArr []),
                           (''visualPrompt'', JStr ''a door'')]])"
    by (simp add: handleExport_def state_infinite_number_def scene_infinite_number_def
        json_of_scene_def initial_state_def)
  have c: "project_of_raw (fst (handleImport (Some (descriptor (handleExport state_infinite_number)))
                            (raw_of state_infinite_number, world0))) = None"
    by (simp add: handleExport_def state_infinite_number_def scene_infinite_number_def
        json_of_scene_def initial_state_def raw_of_def project_of_raw_def scene_of_json_def)
  show ?thesis using a b c project_of_raw_raw_of [of state_infinite_number] by simp
qed

text \<open>
  C3, amended. For a state whose scenes all have a finite number, importing the
  descriptor that \<open>handleExport\<close> writes, whatever the project held before the import,
  shows no alert and leaves stored values that read, at the declared types, as the
  exported project: the same style, story, cast and scenes, image payloads included.
\<close>

theorem export_then_import_restores_project:
  assumes "list_all (\<lambda>s. is_finite (sceneNumber s)) (scenes st)"
  shows "project_of_raw (fst (handleImport (Some (descriptor (handleExport st))) (r, w)))
           = Some (project_of st)
       \<and> snd (handleImport (Some (descriptor (handleExport st))) (r, w)) = w"
  by (simp add: handleImport_export [OF assms] project_of_raw_raw_of)

theorem export_import_witness:
  "list_all (\<lambda>s. is_finite (sceneNumber s)) (scenes state_four_scenes)
   \<and> project_of_raw (fst (handleImport (Some (descriptor (handleExport state_four_scenes)))
                            (raw_of state_cast_selected, world0)))
       = Some \<lparr>p_style = ''dark fantasy ink illustration como Junji Ito'', p_story = [],
               p_casting = [], p_scenes = scenes state_four_scenes\<rparr>"
proof -
  have f: "list_all (\<lambda>s. is_finite (sceneNumber s)) (scenes state_four_scenes)"
    by (simp add: state_four_scenes_def scene_with_image_def)
  show ?thesis
    using f export_then_import_restores_project [OF f, of "raw_of state_cast_selected" world0]
    by (simp add: project_of_def state_four_scenes_def initial_state_def)
qed

text \<open>
  C4, as stated, fails: the file \<open>{"scenes": 5}\<close> is valid JSON that is not a project
  descriptor; importing it shows no alert and stores the number as the scene list,
  which was the empty list before and no longer reads as a project.
\<close>

theorem import_wrong_shape_counterexample:
  "handleImport (Some (JObj [(''scenes'', JNum (Finite 5))])) (raw_of initial_state, world0)
     = ((raw_of initial_state)\<lparr>raw_scenes := JNum (Finite 5)\<rparr>, world0)
   \<and> alerts world0 = []
   \<and> raw_scenes (raw_of initial_state) = JArr []
   \<and> project_of_raw ((raw_of initial_state)\<lparr>raw_scenes := JNum (Finite 5)\<rparr>) = None"
  by (simp add: raw_of_def initial_state_def world0_def project_of_raw_def)

text \<open>
  C4, amended. The import shows its alert and leaves the stored project as it was
  when \<open>JSON.parse\<close> throws and when the parsed value is \<open>null\<close>. For every other
  parsed value it shows no alert, and each of style, story, casting and scenes becomes
  the value of that key when the parsed value has it, whatever that value is, and
  stays as it was when the key is absent.
\<close>

theorem import_outcomes:
  "handleImport None (r, w) = (r, w\<lparr>alerts := alerts w @ [AlertImportError]\<rparr>)
   \<and> handleImport (Some JNull) (r, w) = (r, w\<lparr>alerts := alerts w @ [AlertImportError]\<rparr>)
   \<and> (projectData \<noteq> JNull \<longrightarrow>
        handleImport (Some projectData) (r, w) =
          (r\<lparr>raw_style := (case get_prop projectData ''style'' of None \<Rightarrow> raw_style r | Some v \<Rightarrow> v),
             raw_story := (case get_prop projectData ''story'' of None \<Rightarrow> raw_story r | Some v \<Rightarrow> v),
             raw_casting := (case get_prop projectData ''casting'' of None \<Rightarrow> raw_casting r | Some v \<Rightarrow> v),
             raw_scenes := (case get_prop projectData ''scenes'' of None \<Rightarrow> raw_scenes r | Some v \<Rightarrow> v)\<rparr>,
           w))"
  by (cases projectData) simp_all

theorem import_outcomes_witness:
  "JObj [(''style'', JStr ''noir'')] \<noteq> JNull
   \<and> handleImport (Some (JObj [(''style'', JStr ''noir'')])) (raw_of state_four_scenes, world0)
       = ((raw_of state_four_scenes)\<lparr>raw_style := JStr ''noir''\<rparr>, world0)"
  using import_outcomes [of "raw_of state_four_scenes" world0 "JObj [(''style'', JStr ''noir'')]"]
  by simp

section \<open>Operations that preserve referential integrity\<close>

lemma referential_integrity_iff:
  "referential_integrity cast scs \<longleftrightarrow> (\<forall>sc \<in> set scs. set (selection_of sc) \<subseteq> id' ` set cast)"
  by (auto simp: referential_integrity_def list_all_iff)

lemma referential_integrity_views:
  assumes "referential_integrity cast scs"
    and "set (map selection_of scs') \<subseteq> set (map selection_of scs)"
    and "id' ` set cast \<subseteq> id' ` set cast'"
  shows "referential_integrity cast' scs'"
proof -
  have "\<forall>sel \<in> set (map selection_of scs). set sel \<subseteq> id' ` set cast"
    using assms(1) by (simp add: referential_integrity_iff)
  then have "\<forall>sel \<in> set (map selection_of scs'). set sel \<subseteq> id' ` set cast'"
    using assms(2,3) by blast
  then show ?thesis by (simp add: referential_integrity_iff)
qed

lemma id_set_field: "field \<noteq> FId \<Longrightarrow> id' (set_field field v c) = id' c"
  by (cases field) simp_all

lemma integrity_add_character:
  "referential_integrity (casting s) (scenes s) \<Longrightarrow>
   referential_integrity (casting (handleAddCharacter uuid s)) (scenes (handleAddCharacter uuid s))"
  by (rule referential_integrity_views) (auto simp: handleAddCharacter_def)

lemma integrity_update_character:
  assumes "referential_integrity (casting s) (scenes s)" and "field \<noteq> FId"
  shows "referential_integrity (casting (handleUpdateCharacter (casting s) cid field v s))
           (scenes (handleUpdateCharacter (casting s) cid field v s))"
proof -
  have "map id' (casting (handleUpdateCharacter (casting s) cid field v s)) = map id' (casting s)"
    using assms(2) by (simp add: handleUpdateCharacter_def id_set_field)
  then have "set (map id' (casting (handleUpdateCharacter (casting s) cid field v s))) = set (map id' (casting s))"
    by (rule arg_cong)
  then have img: "id' ` set (casting (handleUpdateCharacter (casting s) cid field v s)) = id' ` set (casting s)"
    by (simp only: set_map)
  have sc: "scenes (handleUpdateCharacter (casting s) cid field v s) = scenes s"
    by (simp add: handleUpdateCharacter_def)
  show ?thesis
    unfolding referential_integrity_iff img sc using assms(1) by (simp add: referential_integrity_iff)
qed

lemma selection_of_filtered:
  "selection_of (sc\<lparr>selectedCharacterIds := map_option (filter P) (selectedCharacterIds sc)\<rparr>)
     = filter P (selection_of sc)"
  by (cases "selectedCharacterIds sc") (simp_all add: selection_of_def)

lemma integrity_remove_character:
  assumes "referential_integrity (casting s) (scenes s)"
  shows "referential_integrity (casting (handleRemoveCharacter cid s))
           (scenes (handleRemoveCharacter cid s))"
  using assms
  by (auto simp: referential_integrity_iff handleRemoveCharacter_def selection_of_filtered)


lemma batch_add_shape:
  "casting (handleBatchAddScenes s) = casting s
   \<and> (\<exists>new. scenes (handleBatchAddScenes s) = scenes s @ new
          \<and> (\<forall>sc \<in> set new. selection_of sc = []))"
proof (cases "truthy (trim (batchScenesText s))")
  case False
  then have "handleBatchAddScenes s = s" by (simp add: handleBatchAddScenes_def)
  then show ?thesis by simp
next
  case True
  let ?new = "map (\<lambda>(idx, line). batch_scene (length (scenes s)) idx line)
                (enumerate 0 (filter (\<lambda>line. length (trim line) > 0)
                   (split_on (CHR 0x0A) (batchScenesText s))))"
  have sc: "scenes (handleBatchAddScenes s) = scenes s @ ?new"
    and ca: "casting (handleBatchAddScenes s) = casting s"
    using True by (simp_all add: handleBatchAddScenes_def Let_def)
  have "\<forall>sc \<in> set ?new. selection_of sc = []"
    by (auto simp: batch_scene_def selection_of_def)
  with sc ca show ?thesis by blast
qed

lemma integrity_batch_add:
  assumes "referential_integrity (casting s) (scenes s)"
  shows "referential_integrity (casting (handleBatchAddScenes s)) (scenes (handleBatchAddScenes s))"
proof -
  from batch_add_shape [of s] obtain new where
    ca: "casting (handleBatchAddScenes s) = casting s"
    and sc: "scenes (handleBatchAddScenes s) = scenes s @ new"
    and em: "\<forall>sc \<in> set new. selection_of sc = []"
    by (elim exE conjE) (rule that; assumption)
  show ?thesis
    unfolding referential_integrity_iff ca sc using assms em
    by (simp add: referential_integrity_iff ball_Un)
qed

lemma integrity_list_update:
  assumes "referential_integrity cast scs" and "set (selection_of sc') \<subseteq> id' ` set cast"
  shows "referential_integrity cast (scs[i := sc'])"
  unfolding referential_integrity_iff
proof
  fix sc assume "sc \<in> set (scs[i := sc'])"
  then have "sc = sc' \<or> sc \<in> set scs"
    using set_update_subset_insert [of scs i sc'] by auto
  then show "set (selection_of sc) \<subseteq> id' ` set cast"
    using assms by (auto simp: referential_integrity_iff)
qed

lemma integrity_toggle:
  assumes "referential_integrity (casting s) (scenes s)"
    and "characterId \<in> set (map id' (casting s))"
    and "toggleCharacterInScene sceneIndex characterId s = Some s'"
  shows "referential_integrity (casting s') (scenes s')"
proof -
  from assms(3) have i: "sceneIndex < length (scenes s)"
    by (simp add: toggleCharacterInScene_def split: if_splits)
  let ?sc = "scenes s ! sceneIndex"
  define sc' where "sc' =
     (if characterId \<in> set (selection_of ?sc)
      then ?sc\<lparr>selectedCharacterIds := Some (filter (\<lambda>x. x \<noteq> characterId) (selection_of ?sc))\<rparr>
      else ?sc\<lparr>selectedCharacterIds := Some (selection_of ?sc @ [characterId])\<rparr>)"
  have s': "s' = s\<lparr>scenes := (scenes s)[sceneIndex := sc']\<rparr>"
    using assms(3) i unfolding toggleCharacterInScene_def Let_def sc'_def selection_of_def
    by (cases "selectedCharacterIds (scenes s ! sceneIndex)") auto
  have old: "set (selection_of ?sc) \<subseteq> id' ` set (casting s)"
    using assms(1) i by (simp add: referential_integrity_iff)
  have new: "set (selection_of sc') \<subseteq> id' ` set (casting s)"
    using old assms(2) by (auto simp: sc'_def selection_of_def)
  show ?thesis
    unfolding s' using integrity_list_update [OF assms(1) new, of sceneIndex] by simp
qed

lemma integrity_edit_prompt:
  assumes "referential_integrity (casting s) (scenes s)"
    and "editVisualPrompt index v s = Some s'"
  shows "referential_integrity (casting s') (scenes s')"
proof -
  from assms(2) have i: "index < length (scenes s)"
    and s': "s' = s\<lparr>scenes := (scenes s)[index := (scenes s ! index)\<lparr>visualPrompt := v\<rparr>]\<rparr>"
    by (simp_all add: editVisualPrompt_def split: if_splits)
  have new: "set (selection_of ((scenes s ! index)\<lparr>visualPrompt := v\<rparr>)) \<subseteq> id' ` set (casting s)"
    using assms(1) i by (simp add: referential_integrity_iff selection_of_def)
  show ?thesis
    unfolding s' using integrity_list_update [OF assms(1) new, of index] by simp
qed

lemma integrity_delete_scene:
  assumes "referential_integrity (casting s) (scenes s)"
  shows "referential_integrity (casting (deleteScene index s)) (scenes (deleteScene index s))"
proof -
  let ?kept = "filter (\<lambda>(i, _). i \<noteq> index) (enumerate 0 (scenes s))"
  have sub: "set (scenes (deleteScene index s)) \<subseteq> set (scenes s)"
    by (auto simp: deleteScene_def in_set_enumerate_eq)
  have ca: "casting (deleteScene index s) = casting s" by (simp add: deleteScene_def)
  show ?thesis
    unfolding referential_integrity_iff ca using assms sub
    by (auto simp: referential_integrity_iff)
qed

lemma map_selection_update:
  assumes "i < length scs" and "selection_of sc' = selection_of (scs ! i)"
  shows "map selection_of (scs[i := sc']) = map selection_of scs"
proof (rule nth_equalityI)
  show "length (map selection_of (scs[i := sc'])) = length (map selection_of scs)" by simp
next
  fix k assume "k < length (map selection_of (scs[i := sc']))"
  then show "map selection_of (scs[i := sc']) ! k = map selection_of scs ! k"
    using assms by (cases "k = i") simp_all
qed

lemma set_scene_selection:
  assumes "set_scene i f scs = Some scs'" and "\<And>s. selection_of (f s) = selection_of s"
  shows "map selection_of scs' = map selection_of scs"
proof -
  from assms(1) have i: "i < length scs" and eq: "scs' = scs[i := f (scs ! i)]"
    by (simp_all add: set_scene_def split: if_splits)
  show ?thesis unfolding eq using i assms(2) by (rule map_selection_update)
qed

text \<open>Two states with the same cast and, scene by scene, the same selections.\<close>

lemma intact_same_refs:
  assumes "referential_integrity (casting s) (scenes s)"
    and "casting s' = casting s" and "map selection_of (scenes s') = map selection_of (scenes s)"
  shows "referential_integrity (casting s') (scenes s')"
proof -
  have v: "\<And>cast scs. referential_integrity cast scs \<longleftrightarrow>
             (\<forall>sel \<in> set (map selection_of scs). set sel \<subseteq> id' ` set cast)"
    by (simp add: referential_integrity_iff)
  show ?thesis unfolding v assms(2,3) using assms(1) unfolding v .
qed

lemma intact_live_refs:
  assumes "intact c"
    and "casting st = casting (live c) \<and> map selection_of (scenes st) = map selection_of (scenes (live c))"
    and "live c' = st"
  shows "intact c'"
proof -
  from assms(2,3) have a: "casting (live c') = casting (live c)"
    and b: "map selection_of (scenes (live c')) = map selection_of (scenes (live c))" by simp_all
  from assms(1) have "referential_integrity (casting (live c)) (scenes (live c))"
    by (simp add: intact_def)
  from intact_same_refs [OF this a b] show ?thesis by (simp add: intact_def)
qed

lemma image_call_refs:
  assumes "handleGenerateImage_call e cl i (st, w) = Some (st', w', p)"
  shows "casting st' = casting st \<and> map selection_of (scenes st') = map selection_of (scenes st)"
proof (cases "i < length (scenes cl)")
  case False
  then show ?thesis using assms by (simp add: handleGenerateImage_call_def)
next
  case True
  obtain r w1 where g: "generateImageForScene e (visualPrompt (scenes cl ! i)) (style cl)
      (selectedChars cl (scenes cl ! i)) w = (r, w1)"
    by (cases "generateImageForScene e (visualPrompt (scenes cl ! i)) (style cl)
      (selectedChars cl (scenes cl ! i)) w")
  from assms True g obtain scs1 where
    s: "set_scene i (\<lambda>s. s\<lparr>isGeneratingImage := Some True\<rparr>) (scenes st) = Some scs1"
    and st': "st' = st\<lparr>scenes := scs1\<rparr>"
    by (cases "set_scene i (\<lambda>s. s\<lparr>isGeneratingImage := Some True\<rparr>) (scenes st)")
       (simp_all add: handleGenerateImage_call_def Let_def)
  have "map selection_of scs1 = map selection_of (scenes st)"
    using s by (rule set_scene_selection) (simp add: selection_of_def)
  then show ?thesis using st' by simp
qed

lemma image_resume_refs:
  assumes "handleGenerateImage_resume i p (st, w) = Some (st', w')"
  shows "casting st' = casting st \<and> map selection_of (scenes st') = map selection_of (scenes st)"
proof (cases "snd p")
  case (Inl err)
  from assms Inl obtain scs where
    s: "set_scene i (\<lambda>s. s\<lparr>isGeneratingImage := Some False\<rparr>) (scenes st) = Some scs"
    and st': "st' = st\<lparr>scenes := scs\<rparr>"
    by (cases "set_scene i (\<lambda>s. s\<lparr>isGeneratingImage := Some False\<rparr>) (scenes st)")
       (simp_all add: handleGenerateImage_resume_def)
  have "map selection_of scs = map selection_of (scenes st)"
    using s by (rule set_scene_selection) (simp add: selection_of_def)
  then show ?thesis using st' by simp
next
  case (Inr url)
  from assms Inr obtain scs where
    s: "set_scene i (\<lambda>s. s\<lparr>imageUrl := Some url, isGeneratingImage := Some False\<rparr>) (scenes st) = Some scs"
    and st': "st' = st\<lparr>scenes := scs\<rparr>"
    by (cases "set_scene i (\<lambda>s. s\<lparr>imageUrl := Some url, isGeneratingImage := Some False\<rparr>) (scenes st)")
       (simp_all add: handleGenerateImage_resume_def)
  have "map selection_of scs = map selection_of (scenes st)"
    using s by (rule set_scene_selection) (simp add: selection_of_def)
  then show ?thesis using st' by simp
qed

lemma prompt_resume_refs:
  assumes "handleGeneratePromptForScene_resume i p (st, w) = Some (st', w')"
  shows "casting st' = casting st \<and> map selection_of (scenes st') = map selection_of (scenes st)"
proof (cases "snd p")
  case (Inl err)
  then have "st' = st" using assms by (simp add: handleGeneratePromptForScene_resume_def)
  then show ?thesis by simp
next
  case (Inr t)
  from assms Inr obtain scs where
    s: "set_scene i (\<lambda>s. s\<lparr>visualPrompt := t\<rparr>) (scenes st) = Some scs"
    and st': "st' = st\<lparr>scenes := scs\<rparr>"
    by (cases "set_scene i (\<lambda>s. s\<lparr>visualPrompt := t\<rparr>) (scenes st)")
       (simp_all add: handleGeneratePromptForScene_resume_def)
  have "map selection_of scs = map selection_of (scenes st)"
    using s by (rule set_scene_selection) (simp add: selection_of_def)
  then show ?thesis using st' by simp
qed

lemma after_call_live: "live (after_call b loop j c) = live c"
  by (cases loop) (simp_all add: after_call_def)

lemma resume_image_intact:
  assumes "intact c" and "resume_image j p loop c = Some c'"
  shows "intact c'"
proof -
  from assms(2) obtain st w where
    h: "handleGenerateImage_resume j p (live c, wld c) = Some (st, w)"
    and c': "c' = after_call Images loop j (c\<lparr>live := st, wld := w\<rparr>)"
    by (cases "handleGenerateImage_resume j p (live c, wld c)") (auto simp: resume_image_def)
  have "live c' = st" unfolding c' by (simp add: after_call_live)
  with assms(1) image_resume_refs [OF h] show ?thesis by (rule intact_live_refs)
qed

lemma call_image_intact:
  assumes "intact c" and "call_image e cl j loop c = Some c'"
  shows "intact c'"
proof (cases "handleGenerateImage_call e cl j (live c, wld c)")
  case None
  then show ?thesis using assms(2) by (simp add: call_image_def)
next
  case (Some x)
  obtain st w p where x: "x = (st, w, p)" by (cases x)
  have h: "handleGenerateImage_call e cl j (live c, wld c) = Some (st, w, p)" using Some x by simp
  have mid: "intact (c\<lparr>live := st, wld := w\<rparr>)"
    using assms(1) image_call_refs [OF h] by (rule intact_live_refs) simp
  show ?thesis
  proof (cases p)
    case None
    then have "c' = after_call Images loop j (c\<lparr>live := st, wld := w\<rparr>)"
      using assms(2) h by (simp add: call_image_def)
    then show ?thesis using mid by (simp add: intact_def after_call_live)
  next
    case (Some q)
    show ?thesis
    proof (cases "settles_at_once e")
      case True
      then have "resume_image j q loop (c\<lparr>live := st, wld := w\<rparr>) = Some c'"
        using assms(2) h Some by (simp add: call_image_def)
      with mid show ?thesis by (rule resume_image_intact)
    next
      case False
      then have "c' = c\<lparr>live := st, wld := w, tasks := tasks c @ [ImageCall j q loop]\<rparr>"
        using assms(2) h Some by (simp add: call_image_def)
      then show ?thesis using mid by (simp add: intact_def)
    qed
  qed
qed

lemma resume_prompt_intact:
  assumes "intact c" and "resume_prompt j p loop c = Some c'"
  shows "intact c'"
proof -
  from assms(2) obtain st w where
    h: "handleGeneratePromptForScene_resume j p (live c, wld c) = Some (st, w)"
    and c': "c' = after_call Prompts loop j (c\<lparr>live := st, wld := w\<rparr>)"
    by (cases "handleGeneratePromptForScene_resume j p (live c, wld c)") (auto simp: resume_prompt_def)
  have "live c' = st" unfolding c' by (simp add: after_call_live)
  with assms(1) prompt_resume_refs [OF h] show ?thesis by (rule intact_live_refs)
qed

lemma call_prompt_intact:
  assumes "intact c" and "call_prompt e cl j loop c = Some c'"
  shows "intact c'"
proof -
  obtain w p where h: "handleGeneratePromptForScene_call e cl j (wld c) = (w, p)"
    by (cases "handleGeneratePromptForScene_call e cl j (wld c)")
  have mid: "intact (c\<lparr>wld := w\<rparr>)" using assms(1) by (simp add: intact_def)
  show ?thesis
  proof (cases p)
    case None
    then have "c' = after_call Prompts loop j (c\<lparr>wld := w\<rparr>)"
      using assms(2) h by (simp add: call_prompt_def)
    then show ?thesis using mid by (simp add: intact_def after_call_live)
  next
    case (Some q)
    show ?thesis
    proof (cases "settles_at_once e")
      case True
      then have "resume_prompt j q loop (c\<lparr>wld := w\<rparr>) = Some c'"
        using assms(2) h Some by (simp add: call_prompt_def)
      with mid show ?thesis by (rule resume_prompt_intact)
    next
      case False
      then have "c' = c\<lparr>wld := w, tasks := tasks c @ [PromptCall j q loop]\<rparr>"
        using assms(2) h Some by (simp add: call_prompt_def)
      then show ?thesis using mid by (simp add: intact_def)
    qed
  qed
qed

lemma all_images_intact:
  assumes "intact c" and "handleGenerateAllImages_from e cl i c = Some c'"
  shows "intact c'"
proof (cases "next_index wants_image (scenes cl) i")
  case None
  then show ?thesis using assms by (simp add: handleGenerateAllImages_from_def)
next
  case (Some j)
  then have "call_image e cl j (Some cl) c = Some c'"
    using assms(2) by (simp add: handleGenerateAllImages_from_def)
  with assms(1) show ?thesis by (rule call_image_intact)
qed

lemma all_prompts_intact:
  assumes "intact c" and "handleGenerateAllPrompts_from e cl i c = Some c'"
  shows "intact c'"
proof (cases "next_index wants_prompt (scenes cl) i")
  case None
  then show ?thesis using assms by (simp add: handleGenerateAllPrompts_from_def)
next
  case (Some j)
  then have "call_prompt e cl j (Some cl) c = Some c'"
    using assms(2) by (simp add: handleGenerateAllPrompts_from_def)
  with assms(1) show ?thesis by (rule call_prompt_intact)
qed

lemma no_selection_intact:
  "\<forall>sc \<in> set scs. selection_of sc = [] \<Longrightarrow> referential_integrity cast scs"
  by (simp add: referential_integrity_iff)

lemma storyboard_resume_intact:
  assumes "intact c" and "handleGenerateStoryboard_resume r (live c, wld c) = (st, w)"
  shows "intact (c\<lparr>live := st, wld := w\<rparr>)"
proof (cases r)
  case (Inl err)
  then have "casting st = casting (live c) \<and> scenes st = scenes (live c)"
    using assms(2) by (auto simp: handleGenerateStoryboard_resume_def)
  then show ?thesis using assms(1) by (simp add: intact_def)
next
  case (Inr generatedScenes)
  then have "scenes st = map (\<lambda>s. s\<lparr>selectedCharacterIds := Some []\<rparr>) generatedScenes"
    using assms(2) by (auto simp: handleGenerateStoryboard_resume_def)
  then have "\<forall>sc \<in> set (scenes st). selection_of sc = []" by (auto simp: selection_of_def)
  then show ?thesis by (simp add: intact_def no_selection_intact)
qed

lemma storyboard_call_intact:
  assumes "intact c" and "handleGenerateStoryboard_call e (live c, wld c) = (st, w, r)"
  shows "intact (c\<lparr>live := st, wld := w\<rparr>)"
proof (cases "\<not> truthy (style (live c)) \<or> \<not> truthy (story (live c))")
  case True
  then have "casting st = casting (live c) \<and> scenes st = scenes (live c)"
    using assms(2) unfolding handleGenerateStoryboard_call_def by auto
  then show ?thesis using assms(1) by (simp add: intact_def)
next
  case False
  then have "scenes st = []"
    using assms(2) unfolding handleGenerateStoryboard_call_def
    by (auto simp: Let_def split: prod.splits)
  then show ?thesis by (simp add: intact_def referential_integrity_def)
qed

section \<open>Reachable configurations\<close>

lemma complete_keeps_intact:
  assumes "intact c" and "k < length (tasks c)" and "keeps_references (Complete k) c"
    and "step e (Complete k) c = Some c'"
  shows "intact c'"
proof -
  let ?c = "c\<lparr>tasks := take k (tasks c) @ drop (Suc k) (tasks c)\<rparr>"
  have i: "intact ?c" using assms(1) by (simp add: intact_def)
  have s: "complete e (tasks c ! k) ?c = Some c'" using assms(2,4) by simp
  show ?thesis
  proof (cases "tasks c ! k")
    case (ImageCall j p loop)
    with s have "resume_image j p loop ?c = Some c'" by simp
    with i show ?thesis by (rule resume_image_intact)
  next
    case (PromptCall j p loop)
    with s have "resume_prompt j p loop ?c = Some c'" by simp
    with i show ?thesis by (rule resume_prompt_intact)
  next
    case (Pause b cl j)
    show ?thesis
    proof (cases b)
      case Images
      with s Pause have "handleGenerateAllImages_from e cl (Suc j) ?c = Some c'" by simp
      with i show ?thesis by (rule all_images_intact)
    next
      case Prompts
      with s Pause have "handleGenerateAllPrompts_from e cl (Suc j) ?c = Some c'" by simp
      with i show ?thesis by (rule all_prompts_intact)
    qed
  next
    case (StoryboardCall r)
    obtain st w where h: "handleGenerateStoryboard_resume r (live ?c, wld ?c) = (st, w)"
      by (cases "handleGenerateStoryboard_resume r (live ?c, wld ?c)")
    from s StoryboardCall h have "c' = ?c\<lparr>live := st, wld := w\<rparr>" by simp
    with storyboard_resume_intact [OF i h] show ?thesis by simp
  next
    case (CharacterImageRead casting' cid url)
    from assms(3) CharacterImageRead have eq: "casting' = casting (live c)" by simp
    from s CharacterImageRead eq
    have c': "live c' = handleUpdateCharacter (casting (live c)) cid FReferenceImage url (live c)"
      by auto
    have "referential_integrity (casting (live c)) (scenes (live c))"
      using assms(1) by (simp add: intact_def)
    then show ?thesis
      unfolding intact_def c' by (rule integrity_update_character) simp
  next
    case (ImportRead parsed)
    have same: "import_read parsed ?c = None \<longleftrightarrow> import_read parsed c = None"
      "\<And>d. import_read parsed ?c = Some d \<Longrightarrow>
         \<exists>d0. import_read parsed c = Some d0 \<and> live d = live d0"
      by (auto simp: import_read_def split: prod.splits option.splits)
    from s ImportRead have r: "import_read parsed ?c = Some c'" by simp
    from same(2) [OF r] obtain d0 where d0: "import_read parsed c = Some d0" and l: "live c' = live d0"
      by blast
    from assms(3) ImportRead d0 have "referential_integrity (casting (live d0)) (scenes (live d0))"
      by simp
    then show ?thesis using l by (simp add: intact_def)
  qed
qed

lemma step_keeps_intact:
  assumes "intact c" and "offered ev c" and "keeps_references ev c" and "step e ev c = Some c'"
  shows "intact c'"
proof (cases ev)
  case (SetStyle v)
  then show ?thesis using assms by (auto simp: intact_def)
next
  case (SetStory v)
  then show ?thesis using assms by (auto simp: intact_def)
next
  case (SetBatchScenesText v)
  then show ?thesis using assms by (auto simp: intact_def)
next
  case (AddCharacter uuid)
  then show ?thesis using assms by (auto simp: intact_def integrity_add_character)
next
  case (UpdateCharacter cid field v)
  then show ?thesis using assms by (auto simp: intact_def integrity_update_character)
next
  case (RemoveCharacter cid)
  then show ?thesis using assms by (auto simp: intact_def integrity_remove_character)
next
  case (ChooseCharacterImage cid url)
  then show ?thesis using assms by (auto simp: intact_def)
next
  case ClickGenerateStoryboard
  obtain st w r where h: "handleGenerateStoryboard_call e (live c, wld c) = (st, w, r)"
    by (cases "handleGenerateStoryboard_call e (live c, wld c)")
  have mid: "intact (c\<lparr>live := st, wld := w\<rparr>)" using assms(1) h by (rule storyboard_call_intact)
  show ?thesis
  proof (cases r)
    case None
    then have "c' = c\<lparr>live := st, wld := w\<rparr>" using assms(4) ClickGenerateStoryboard h by simp
    with mid show ?thesis by simp
  next
    case (Some q)
    show ?thesis
    proof (cases "settles_at_once e")
      case False
      then have "c' = c\<lparr>live := st, wld := w, tasks := tasks c @ [StoryboardCall q]\<rparr>"
        using assms(4) ClickGenerateStoryboard h Some by simp
      then show ?thesis using mid by (simp add: intact_def)
    next
      case True
      obtain st2 w2 where h2: "handleGenerateStoryboard_resume q (st, w) = (st2, w2)"
        by (cases "handleGenerateStoryboard_resume q (st, w)")
      from True assms(4) ClickGenerateStoryboard h Some h2
      have c': "c' = c\<lparr>live := st2, wld := w2\<rparr>" by simp
      from storyboard_resume_intact [OF mid, of q st2 w2] h2
      show ?thesis unfolding c' by simp
    qed
  qed
next
  case ClickBatchAdd
  then show ?thesis using assms by (auto simp: intact_def integrity_batch_add)
next
  case (Toggle i cid)
  with assms(4) obtain st where t: "toggleCharacterInScene i cid (live c) = Some st"
    and c': "c' = c\<lparr>live := st\<rparr>"
    by (cases "toggleCharacterInScene i cid (live c)") simp_all
  from assms(2) Toggle have m: "cid \<in> set (map id' (casting (live c)))"
    by (simp add: in_cast_def)
  from assms(1) have "referential_integrity (casting (live c)) (scenes (live c))"
    by (simp add: intact_def)
  from integrity_toggle [OF this m t] show ?thesis by (simp add: intact_def c')
next
  case (EditPrompt i v)
  with assms(4) obtain st where t: "editVisualPrompt i v (live c) = Some st"
    and c': "c' = c\<lparr>live := st\<rparr>"
    by (cases "editVisualPrompt i v (live c)") simp_all
  from assms(1) have "referential_integrity (casting (live c)) (scenes (live c))"
    by (simp add: intact_def)
  from integrity_edit_prompt [OF this t] show ?thesis by (simp add: intact_def c')
next
  case (DeleteScene i)
  then show ?thesis using assms by (auto simp: intact_def integrity_delete_scene)
next
  case (ClickGeneratePrompt i)
  with assms(4) have "call_prompt e (live c) i None c = Some c'" by simp
  with assms(1) show ?thesis by (rule call_prompt_intact)
next
  case (ClickGenerateImage i)
  with assms(4) have "call_image e (live c) i None c = Some c'" by simp
  with assms(1) show ?thesis by (rule call_image_intact)
next
  case ClickAllPrompts
  with assms(4) have "handleGenerateAllPrompts_from e (live c) 0 c = Some c'" by simp
  with assms(1) show ?thesis by (rule all_prompts_intact)
next
  case ClickAllImages
  with assms(4) have "handleGenerateAllImages_from e (live c) 0 c = Some c'" by simp
  with assms(1) show ?thesis by (rule all_images_intact)
next
  case (ChooseImportFile parsed)
  then show ?thesis using assms by (auto simp: intact_def)
next
  case (Complete k)
  from assms(2) Complete have k: "k < length (tasks c)" by simp
  from complete_keeps_intact [OF assms(1) k] assms(3,4) Complete show ?thesis by simp
qed




lemma intact_runs_stay_intact:
  assumes "intact c" and "run e evs c = Some c'" and "all_allowed keeps_references e evs c"
  shows "intact c'"
  using assms
proof (induction evs arbitrary: c)
  case Nil
  then show ?case by simp
next
  case (Cons ev evs)
  from Cons.prems(2) have o: "offered ev c" by (simp split: if_splits)
  with Cons.prems(2) obtain c1 where s: "step e ev c = Some c1" and r: "run e evs c1 = Some c'"
    by (cases "step e ev c") simp_all
  from Cons.prems(3) s have a: "keeps_references ev c"
    and aa: "all_allowed keeps_references e evs c1" by simp_all
  from step_keeps_intact [OF Cons.prems(1) o a s] have "intact c1" .
  from Cons.IH [OF this r aa] show ?case .
qed

subsection \<open>Evaluation of event lists\<close>

lemmas run_simps =
  initial_configuration_def initial_state_def world0_def settles_at_once_def
  has_card_def in_cast_def truthy_def truthy_opt_def truthy_flag_def trim_def is_ws_def
  handleAddCharacter_def handleUpdateCharacter_def handleRemoveCharacter_def
  handleBatchAddScenes_def batch_scene_def toggleCharacterInScene_def editVisualPrompt_def
  deleteScene_def Let_def enumerate_eq_zip
  call_image_def resume_image_def call_prompt_def resume_prompt_def after_call_def
  handleGenerateImage_call_def handleGenerateImage_resume_def
  handleGeneratePromptForScene_call_def handleGeneratePromptForScene_resume_def
  handleGenerateAllImages_from_def handleGenerateAllPrompts_from_def
  set_scene_def selectedChars_def includes_id_def
  generateImageForScene_def generatePromptForScene_def generateContent_def


subsection \<open>Referential integrity of the reachable configurations\<close>




text \<open>
  The read of a character's image that ends after the cast has changed: the handler
  of the render that started the read writes the cast of that render. Here a second
  character is added and selected in a scene while the file of the first is read; the
  end of the read leaves a cast without the second character, which the scene still
  selects.
\<close>

lemma stale_upload_drops_selected_character:
  "\<exists>c. run env_no_key
          [AddCharacter ''c1'', ChooseCharacterImage ''c1'' ''data:image/png;base64,QUJD'',
           AddCharacter ''c2'', SetBatchScenesText ''A door opens.'', ClickBatchAdd,
           Toggle 0 ''c2'', Complete 0] initial_configuration = Some c
      \<and> map id' (casting (live c)) = [''c1'']
      \<and> map selection_of (scenes (live c)) = [[''c2'']]
      \<and> \<not> referential_integrity (casting (live c)) (scenes (live c))"
  by (simp add: run_simps referential_integrity_def selection_of_def)

section \<open>Single-scene generation and the batch loops\<close>

subsection \<open>A handler that nothing interrupts\<close>

text \<open>
  When no other event is handled between the call and the end of
  \<open>handleGenerateImage\<close>, the scene at the index gets the flag \<open>false\<close> and, on success,
  the image; on failure its image stays, and the alert names the scene. Nothing else
  of the state changes.
\<close>

lemma uninterrupted_image_generation:
  assumes "index < length (scenes st)"
  obtains st1 w1 p st2 w2 where
    "handleGenerateImage_call e st index (st, w) = Some (st1, w1, Some p)"
    and "handleGenerateImage_resume index p (st1, w1) = Some (st2, w2)"
    and "st2 = st\<lparr>scenes := (scenes st)[index := (scenes st ! index)
                 \<lparr>imageUrl := (case snd p of Inl err \<Rightarrow> imageUrl (scenes st ! index)
                                | Inr url \<Rightarrow> Some url),
                  isGeneratingImage := Some False\<rparr>]\<rparr>"
    and "alerts w2 = alerts w @ (case snd p of Inl err \<Rightarrow>
              [AlertImageError (sceneNumber (scenes st ! index)) (message err)] | Inr url \<Rightarrow> [])"
proof -
  let ?sc = "scenes st ! index"
  obtain r w1 where g: "generateImageForScene e (visualPrompt ?sc) (style st) (selectedChars st ?sc) w = (r, w1)"
    by (cases "generateImageForScene e (visualPrompt ?sc) (style st) (selectedChars st ?sc) w")
  have a: "alerts w1 = alerts w"
    using g by (auto simp: generateImageForScene_def generateContent_def Let_def
        split: if_splits prod.splits sum.splits option.splits)
  let ?st1 = "st\<lparr>scenes := (scenes st)[index := ?sc\<lparr>isGeneratingImage := Some True\<rparr>]\<rparr>"
  have c: "handleGenerateImage_call e st index (st, w) = Some (?st1, w1, Some (sceneNumber ?sc, r))"
    using assms g by (simp add: handleGenerateImage_call_def set_scene_def Let_def)
  show ?thesis
  proof (cases r)
    case (Inl err)
    show ?thesis
      by (rule that [OF c, of _ "w1\<lparr>alerts := alerts w1 @ [AlertImageError (sceneNumber ?sc) (message err)]\<rparr>"])
        (use assms Inl a in \<open>simp_all add: handleGenerateImage_resume_def set_scene_def\<close>)
  next
    case (Inr url)
    show ?thesis
      by (rule that [OF c, of _ w1])
        (use assms Inr a in \<open>simp_all add: handleGenerateImage_resume_def set_scene_def\<close>)
  qed
qed

text \<open>The same for \<open>handleGeneratePromptForScene\<close>: on success the scene at the index gets the prompt.\<close>

lemma uninterrupted_prompt_generation:
  assumes "index < length (scenes st)"
  obtains w1 p st2 w2 where
    "handleGeneratePromptForScene_call e st index w = (w1, Some p)"
    and "handleGeneratePromptForScene_resume index p (st, w1) = Some (st2, w2)"
    and "st2 = (case snd p of Inl err \<Rightarrow> st
                | Inr t \<Rightarrow> st\<lparr>scenes := (scenes st)[index := (scenes st ! index)\<lparr>visualPrompt := t\<rparr>]\<rparr>)"
    and "alerts w2 = alerts w @ (case snd p of Inl err \<Rightarrow>
              [AlertPromptError (sceneNumber (scenes st ! index)) (message err)] | Inr t \<Rightarrow> [])"
proof -
  let ?sc = "scenes st ! index"
  obtain r w1 where g: "generatePromptForScene e (style st) (textExcerpt ?sc) (selectedChars st ?sc) w = (r, w1)"
    by (cases "generatePromptForScene e (style st) (textExcerpt ?sc) (selectedChars st ?sc) w")
  have a: "alerts w1 = alerts w"
    using g by (auto simp: generatePromptForScene_def generateContent_def Let_def
        split: if_splits prod.splits sum.splits option.splits)
  have c: "handleGeneratePromptForScene_call e st index w = (w1, Some (sceneNumber ?sc, r))"
    using assms g by (simp add: handleGeneratePromptForScene_call_def Let_def)
  show ?thesis
  proof (cases r)
    case (Inl err)
    show ?thesis
      by (rule that [OF c, of _ "w1\<lparr>alerts := alerts w1 @ [AlertPromptError (sceneNumber ?sc) (message err)]\<rparr>"])
        (use assms Inl a in \<open>simp_all add: handleGeneratePromptForScene_resume_def set_scene_def\<close>)
  next
    case (Inr t)
    show ?thesis
      by (rule that [OF c, of _ w1])
        (use assms Inr a in \<open>simp_all add: handleGeneratePromptForScene_resume_def set_scene_def\<close>)
  qed
qed

subsection \<open>A scene deleted while a generation is pending\<close>

text \<open>
  C2. After a failed single-scene image generation the scene has the image it had and
  its flag is false: so it is when nothing is handled during the \<open>await\<close>
  (\<open>uninterrupted_image_generation\<close>). The source does not do it when the list
  changes meanwhile, since the \<open>catch\<close> branch writes at the index of the click. Here
  three scenes A, B and C are added, B gets a prompt and its image is requested from a
  service that rejects the request, and A is deleted before the rejection arrives: B
  keeps the flag \<open>true\<close> with no task pending, C gets the flag \<open>false\<close>, and the alert
  names scene 2.
\<close>

theorem failed_image_generation_after_deletion_leaves_flag_set:
  "\<exists>c0 c. run env_rejecting [SetBatchScenesText three_lines, ClickBatchAdd, EditPrompt 1 ''b'']
            initial_configuration = Some c0
      \<and> map textExcerpt (scenes (live c0)) = [''A'', ''B'', ''C'']
      \<and> map isGeneratingImage (scenes (live c0)) = [None, None, None]
      \<and> run env_rejecting [ClickGenerateImage 1, DeleteScene 0, Complete 0] c0 = Some c
      \<and> map textExcerpt (scenes (live c)) = [''B'', ''C'']
      \<and> map isGeneratingImage (scenes (live c)) = [Some True, Some False]
      \<and> map imageUrl (scenes (live c)) = [None, None]
      \<and> alerts (wld c) = [AlertImageError (Finite 2) ''503'']
      \<and> tasks c = []"
  by (simp add: run_simps env_rejecting_def three_lines_def)

text \<open>
  C10. A single-scene generation changes the scene at its index and nothing else: so
  it is when nothing is handled during the \<open>await\<close> (\<open>uninterrupted_image_generation\<close>,
  \<open>uninterrupted_prompt_generation\<close>). The source does not do it when the list changes
  meanwhile. With the scenes A, B and C, and A deleted during the \<open>await\<close>: the image
  requested for B is written to C, and B keeps the flag \<open>true\<close>; the prompt requested
  for B is written to C; and the prompt requested for C, whose index is then past the
  end of the list, adds an element that is no scene.
\<close>

theorem generation_after_deletion_changes_another_scene:
  "\<exists>c0 c1 c2. run env_answering [SetBatchScenesText three_lines, ClickBatchAdd] initial_configuration
            = Some c0
      \<and> map textExcerpt (scenes (live c0)) = [''A'', ''B'', ''C'']
      \<and> map visualPrompt (scenes (live c0)) = [[], [], []]
      \<and> run env_answering [EditPrompt 1 ''b'', ClickGenerateImage 1, DeleteScene 0, Complete 0] c0
            = Some c1
      \<and> map textExcerpt (scenes (live c1)) = [''B'', ''C'']
      \<and> map imageUrl (scenes (live c1)) = [None, Some ''data:image/png;base64,QUJD'']
      \<and> map isGeneratingImage (scenes (live c1)) = [Some True, Some False]
      \<and> run env_answering [ClickGeneratePrompt 1, DeleteScene 0, Complete 0] c0 = Some c2
      \<and> map textExcerpt (scenes (live c2)) = [''B'', ''C'']
      \<and> map visualPrompt (scenes (live c2)) = [[], ''a wide shot'']
      \<and> run env_answering [ClickGeneratePrompt 2, DeleteScene 0, Complete 0] c0 = None"
  by (simp add: run_simps env_answering_def three_lines_def)

text \<open>
  The example of the specification: the first and the third scene have an image, the
  second has no prompt. With nothing else handled before the loop ends,
  \<open>handleGenerateAllImages\<close> sends one request, for the fourth scene, and changes no
  other scene.
\<close>

lemma batch_images_on_the_example:
  "\<exists>c. run env_image [ClickAllImages, Complete 0, Complete 0]
          \<lparr>live = state_four_scenes, wld = world0, tasks = []\<rparr> = Some c
      \<and> scenes (live c) = (scenes state_four_scenes)
           [3 := (scenes state_four_scenes ! 3)
                   \<lparr>imageUrl := Some ''data:image/png;base64,QUJD'', isGeneratingImage := Some False\<rparr>]
      \<and> map contents (sent (wld c)) = [Parts (image_request_parts ''rain on a window'' (style initial_state) [])]
      \<and> tasks c = []"
  by (simp add: run_simps env_image_def state_four_scenes_def scene_with_image_def
      next_index.simps wants_image_def)

text \<open>
  C6. \<open>handleGenerateAllImages\<close> requests an image for the scenes without an image,
  not generating and with a prompt, and touches no other: so it is on the example of
  the specification when nothing else is handled before the loop ends
  (\<open>batch_images_on_the_example\<close>). The source does not do it when the list changes
  meanwhile, since the loop reads the scenes of the render of the click and
  \<open>handleGenerateImage\<close> writes at their indices. Here A and B have a prompt and no
  image, and C has an image and no prompt; A is deleted during the pause that follows
  its generation. The loop then requests the image of B and writes it to C, which had
  an image and has no prompt, and B is left without an image.
\<close>

theorem batch_images_after_deletion_overwrite_and_skip:
  "\<exists>c0 c. run env_numbered
            [SetBatchScenesText three_lines, ClickBatchAdd, EditPrompt 0 ''a'', EditPrompt 1 ''b'',
             EditPrompt 2 ''c'', ClickGenerateImage 2, Complete 0, EditPrompt 2 []]
            initial_configuration = Some c0
      \<and> map textExcerpt (scenes (live c0)) = [''A'', ''B'', ''C'']
      \<and> map visualPrompt (scenes (live c0)) = [''a'', ''b'', []]
      \<and> map imageUrl (scenes (live c0)) = [None, None, Some ''data:image/png;base64,Rmlyc3Q='']
      \<and> tasks c0 = []
      \<and> run env_numbered [ClickAllImages, Complete 0, DeleteScene 0, Complete 0, Complete 0, Complete 0] c0
            = Some c
      \<and> map textExcerpt (scenes (live c)) = [''B'', ''C'']
      \<and> map visualPrompt (scenes (live c)) = [''b'', []]
      \<and> map imageUrl (scenes (live c)) = [None, Some ''data:image/png;base64,VGhpcmQ='']
      \<and> map contents (sent (wld c)) =
            [Parts (image_request_parts ''c'' (style initial_state) []),
             Parts (image_request_parts ''a'' (style initial_state) []),
             Parts (image_request_parts ''b'' (style initial_state) [])]
      \<and> tasks c = []"
  by (simp add: run_simps env_numbered_def three_lines_def next_index.simps wants_image_def)

end
